theory Spec2Isabelle
  imports Complex_Main
begin

section \<open>The ESP32-C5 flasher scripts\<close>

text \<open>
  The repository holds two versions of one command-line script: \<^verbatim>\<open>c5_flasher.py\<close>,
  which looks for the firmware images in a \<^verbatim>\<open>bins\<close> directory beside the script,
  and the older \<^verbatim>\<open>_c5_flasher.py\<close>, which looks beside the script itself. Both wait
  for a new serial port, pick the images by file name and size, ask the operator, and
  call \<^verbatim>\<open>esptool.main\<close> with a fixed argument list.

  Everything the scripts read from outside is a field of the record \<open>env\<close>; what they
  do is a list of events and the way \<^verbatim>\<open>main()\<close> ends. The model starts after
  \<^verbatim>\<open>ensure_requirements()\<close> and \<^verbatim>\<open>parser.parse_args()\<close> have returned. File names
  are compared as POSIX does (case matters), and a character is a code point below 256.
\<close>

datatype script = C5_flasher | Underscore_c5_flasher

datatype exc =
    Exception string    \<comment> \<open>an instance of \<^verbatim>\<open>Exception\<close>, with \<^verbatim>\<open>str(e)\<close>\<close>
  | SystemExit int      \<comment> \<open>\<^verbatim>\<open>SystemExit(n)\<close>: derives from \<^verbatim>\<open>BaseException\<close> only\<close>

datatype call_result = Returns | Raises exc

datatype outcome = Return | Raise exc

datatype event =
    Print string
  | Sleep rat
  | Input string
  | Esptool_main "string list"

datatype py_error = ValueError

record env =
  script_dir :: string                         \<comment> \<open>\<^verbatim>\<open>os.path.dirname(__file__)\<close>\<close>
  isdir :: "string \<Rightarrow> bool"                   \<comment> \<open>\<^verbatim>\<open>os.path.isdir\<close>\<close>
  terminal_columns :: nat                      \<comment> \<open>\<^verbatim>\<open>shutil.get_terminal_size((80, 20)).columns\<close>\<close>
  comports :: "nat \<Rightarrow> string list"            \<comment> \<open>the devices listed by the k-th call of \<^verbatim>\<open>comports()\<close>\<close>
  pop_choice :: nat                            \<comment> \<open>which element \<^verbatim>\<open>set.pop()\<close> takes\<close>
  listdir :: "string list"                     \<comment> \<open>the names in the scanned directory, in \<^verbatim>\<open>os.scandir\<close> order\<close>
  glob_elsewhere :: "string \<Rightarrow> string list"   \<comment> \<open>\<^verbatim>\<open>glob.glob\<close> of a pattern that this listing does not decide\<close>
  isfile :: "string \<Rightarrow> bool"                  \<comment> \<open>\<^verbatim>\<open>os.path.isfile\<close>, by path\<close>
  getsize :: "string \<Rightarrow> nat"                  \<comment> \<open>\<^verbatim>\<open>os.path.getsize\<close>, by path\<close>
  input_line :: string                         \<comment> \<open>the line \<^verbatim>\<open>input()\<close> returns\<close>
  esptool_main :: "string list \<Rightarrow> call_result" \<comment> \<open>what \<^verbatim>\<open>esptool.main\<close> does with an argument list\<close>

subsection \<open>Library functions the scripts call\<close>

text \<open>The colour codes of \<^verbatim>\<open>colorama\<close> (ANSI escape sequences).\<close>

definition Fore_RED :: string where "Fore_RED = CHR 0x1B # ''[31m''"
definition Fore_GREEN :: string where "Fore_GREEN = CHR 0x1B # ''[32m''"
definition Fore_YELLOW :: string where "Fore_YELLOW = CHR 0x1B # ''[33m''"
definition Fore_MAGENTA :: string where "Fore_MAGENTA = CHR 0x1B # ''[35m''"
definition Fore_CYAN :: string where "Fore_CYAN = CHR 0x1B # ''[36m''"
definition Style_RESET_ALL :: string where "Style_RESET_ALL = CHR 0x1B # ''[0m''"

definition newline :: string where "newline = [CHR 0x0A]"

text \<open>\<^verbatim>\<open>os.path.join(a, b)\<close> of \<^verbatim>\<open>posixpath\<close>.\<close>

definition join :: "string \<Rightarrow> string \<Rightarrow> string" where
  "join a b =
     (if b \<noteq> [] \<and> hd b = CHR ''/'' then b
      else if a = [] \<or> last a = CHR ''/'' then a @ b
      else a @ ''/'' @ b)"

text \<open>\<^verbatim>\<open>sep.join(lines)\<close>.\<close>

fun str_join :: "string \<Rightarrow> string list \<Rightarrow> string" where
  "str_join sep [] = []"
| "str_join sep [x] = x"
| "str_join sep (x # y # ys) = x @ sep @ str_join sep (y # ys)"

text \<open>
  \<^verbatim>\<open>text.center(width)\<close>: CPython puts \<^verbatim>\<open>marg // 2 + (marg & width & 1)\<close> spaces on the
  left, where \<^verbatim>\<open>marg = width - len(text)\<close>.
\<close>

definition center :: "nat \<Rightarrow> string \<Rightarrow> string" where
  "center width text =
     (if width \<le> length text then text
      else let marg = width - length text;
               left = marg div 2 + (if odd marg \<and> odd width then 1 else 0)
           in replicate left CHR '' '' @ text @ replicate (marg - left) CHR '' '')"

text \<open>\<^verbatim>\<open>str.isspace\<close>, \<^verbatim>\<open>str.strip()\<close> and \<^verbatim>\<open>str.lower()\<close> on code points below 256.\<close>

definition isspace :: "char \<Rightarrow> bool" where
  "isspace c =
     (let n = (of_char c :: nat)
      in (9 \<le> n \<and> n \<le> 13) \<or> (28 \<le> n \<and> n \<le> 32) \<or> n = 133 \<or> n = 160)"

definition strip :: "string \<Rightarrow> string" where
  "strip s = rev (dropWhile isspace (rev (dropWhile isspace s)))"

definition lower_char :: "char \<Rightarrow> char" where
  "lower_char c =
     (let n = (of_char c :: nat)
      in if (65 \<le> n \<and> n \<le> 90) \<or> (192 \<le> n \<and> n \<le> 222 \<and> n \<noteq> 215)
         then char_of (n + 32) else c)"

definition lower :: "string \<Rightarrow> string" where
  "lower s = map lower_char s"

text \<open>
  Truth of a value that is a string or \<^verbatim>\<open>None\<close>, and \<^verbatim>\<open>value or default\<close>.
\<close>

definition truthy :: "string option \<Rightarrow> bool" where
  "truthy v = (case v of None \<Rightarrow> False | Some s \<Rightarrow> s \<noteq> [])"

definition or_str :: "string option \<Rightarrow> string \<Rightarrow> string" where
  "or_str v d = (if truthy v then the v else d)"

text \<open>
  A Python set of strings is kept as a list without repetitions. \<^verbatim>\<open>set(xs)\<close> is
  \<open>py_set xs\<close>, \<^verbatim>\<open>a - b\<close> is \<open>set_minus a b\<close>, and \<^verbatim>\<open>s.pop()\<close> takes the element
  at a position the environment chooses.
\<close>

definition py_set :: "string list \<Rightarrow> string list" where
  "py_set xs = remdups xs"

definition set_minus :: "string list \<Rightarrow> string list \<Rightarrow> string list" where
  "set_minus a b = filter (\<lambda>p. p \<notin> set b) a"

definition set_pop :: "nat \<Rightarrow> string list \<Rightarrow> string" where
  "set_pop choice s = s ! (choice mod length s)"

text \<open>
  \<^verbatim>\<open>max(xs, key=key)\<close>: the first item is the candidate, a later item replaces it only
  when its key is strictly greater; an empty argument raises \<^verbatim>\<open>ValueError\<close>.
\<close>

fun max_from :: "('a \<Rightarrow> nat) \<Rightarrow> 'a \<Rightarrow> 'a list \<Rightarrow> 'a" where
  "max_from key maxitem [] = maxitem"
| "max_from key maxitem (item # rest) =
     max_from key (if key item > key maxitem then item else maxitem) rest"

definition py_max :: "('a \<Rightarrow> nat) \<Rightarrow> 'a list \<Rightarrow> py_error + 'a" where
  "py_max key xs = (case xs of [] \<Rightarrow> Inl ValueError | x # rest \<Rightarrow> Inr (max_from key x rest))"

text \<open>
  \<^verbatim>\<open>glob.glob(os.path.join(d, name))\<close>, as the scripts call it. \<^verbatim>\<open>glob\<close> reads the
  characters \<^verbatim>\<open>*\<close>, \<^verbatim>\<open>?\<close> and \<^verbatim>\<open>[\<close> as wildcards wherever they stand in the pattern,
  also in the directory part; \<open>has_magic\<close> is its test for them.

  When the directory \<open>d\<close> has no wildcard and is not written with a slash at its end
  (unless it is made of slashes only), the pattern is matched against the names of \<open>d\<close>
  alone. A name that is one path component without wildcard matches when \<open>d\<close> holds
  it, and the result is its path. The pattern \<^verbatim>\<open>*.bin\<close> gives the paths of the names
  that end in \<^verbatim>\<open>.bin\<close> and do not start with a dot, in directory order.

  In every other case the result depends on other directories than \<open>d\<close>, and the
  environment gives it. \<^verbatim>\<open>glob\<close> returns no empty path.
\<close>

definition has_magic :: "string \<Rightarrow> bool" where
  "has_magic s = (\<exists>c\<in>set s. c = CHR ''*'' \<or> c = CHR ''?'' \<or> c = CHR ''['')"

definition plain_dir :: "string \<Rightarrow> bool" where
  "plain_dir d =
     (\<not> has_magic d \<and> (d = [] \<or> last d \<noteq> CHR ''/'' \<or> (\<forall>c\<in>set d. c = CHR ''/'')))"

definition plain_name :: "string \<Rightarrow> bool" where
  "plain_name n =
     (n \<noteq> [] \<and> n \<noteq> ''.'' \<and> n \<noteq> ''..'' \<and> CHR ''/'' \<notin> set n \<and> \<not> has_magic n)"

definition glob_name :: "env \<Rightarrow> string \<Rightarrow> string \<Rightarrow> string list" where
  "glob_name e d name =
     (if plain_dir d \<and> plain_name name
      then (if name \<in> set (listdir e) then [join d name] else [])
      else filter (\<lambda>p. p \<noteq> []) (glob_elsewhere e (join d name)))"

definition fnmatch_bin :: "string \<Rightarrow> bool" where
  "fnmatch_bin n = (4 \<le> length n \<and> drop (length n - 4) n = ''.bin'')"

definition ishidden :: "string \<Rightarrow> bool" where
  "ishidden n = (case n of [] \<Rightarrow> False | c # _ \<Rightarrow> c = CHR ''.'')"

definition glob_bins :: "env \<Rightarrow> string \<Rightarrow> string list" where
  "glob_bins e d =
     (if plain_dir d
      then map (join d) (filter (\<lambda>n. \<not> ishidden n \<and> fnmatch_bin n) (listdir e))
      else filter (\<lambda>p. p \<noteq> []) (glob_elsewhere e (join d ''*.bin'')))"

subsection \<open>The scripts' own functions\<close>

text \<open>
  \<^verbatim>\<open>find_new_serial_port(existing_ports)\<close> of \<^verbatim>\<open>_c5_flasher.py\<close>; \<^verbatim>\<open>c5_flasher.py\<close> has
  the same loop inside \<^verbatim>\<open>main\<close>. \<open>poll_ports e existing k evs\<close> is the loop from
  its k-th call of \<^verbatim>\<open>comports()\<close> on, with the events so far; a loop that never ends is
  \<open>None\<close>.
\<close>

partial_function (option) poll_ports ::
    "env \<Rightarrow> string list \<Rightarrow> nat \<Rightarrow> event list \<Rightarrow> (string \<times> event list) option" where
  "poll_ports e existing_ports k evs =
     (let current_ports = py_set (comports e k);
          new_ports = set_minus current_ports existing_ports
      in if new_ports \<noteq> [] then Some (set_pop (pop_choice e) new_ports, evs)
         else poll_ports e existing_ports (Suc k) (evs @ [Sleep (1 / 2)]))"

declare poll_ports.simps [code]

definition waiting :: string where
  "waiting =
     Fore_YELLOW @ ''Waiting for ESP32-C5 device to be connected...'' @ Style_RESET_ALL"

definition find_new_serial_port :: "env \<Rightarrow> string list \<Rightarrow> (string \<times> event list) option" where
  "find_new_serial_port e existing_ports = poll_ports e existing_ports 1 [Print waiting]"

text \<open>
  \<^verbatim>\<open>find_file(name_options, bins_dir)\<close>; in \<^verbatim>\<open>_c5_flasher.py\<close> the directory is that of
  the script.
\<close>

fun find_file :: "env \<Rightarrow> string list \<Rightarrow> string \<Rightarrow> string option" where
  "find_file e [] bins_dir = None"
| "find_file e (name # rest) bins_dir =
     (case glob_name e bins_dir name of
        [] \<Rightarrow> find_file e rest bins_dir
      | f # _ \<Rightarrow> Some f)"

text \<open>The directory the images are looked for in.\<close>

definition bins_dir_of :: "script \<Rightarrow> env \<Rightarrow> string" where
  "bins_dir_of sc e =
     (case sc of C5_flasher \<Rightarrow> join (script_dir e) ''bins''
               | Underscore_c5_flasher \<Rightarrow> script_dir e)"

text \<open>The three images found by name, and the candidates for the application image.\<close>

definition bootloader_of :: "env \<Rightarrow> string \<Rightarrow> string option" where
  "bootloader_of e d = find_file e [''bootloader.bin''] d"

definition partitions_of :: "env \<Rightarrow> string \<Rightarrow> string option" where
  "partitions_of e d = find_file e [''partition-table.bin'', ''partitions.bin''] d"

definition ota_data_of :: "env \<Rightarrow> string \<Rightarrow> string option" where
  "ota_data_of e d = find_file e [''ota_data_initial.bin''] d"

definition firmware_bins :: "env \<Rightarrow> string \<Rightarrow> string list" where
  "firmware_bins e d =
     (let all_bins = glob_bins e d;
          exclude = {bootloader_of e d, partitions_of e d, ota_data_of e d}
      in filter (\<lambda>f. Some f \<notin> exclude \<and> isfile e f) all_bins)"

text \<open>The argument list for \<^verbatim>\<open>esptool.main\<close>.\<close>

definition esptool_args ::
    "script \<Rightarrow> string \<Rightarrow> string \<Rightarrow> string \<Rightarrow> string option \<Rightarrow> string \<Rightarrow> string list" where
  "esptool_args sc serial_port bootloader partitions ota_data app_bin =
     (case sc of
        C5_flasher \<Rightarrow>
          [''--chip'', ''esp32c5'',
           ''--port'', serial_port,
           ''--baud'', ''921600'',
           ''--before'', ''default_reset'',
           ''--after'', ''hard_reset'',
           ''write_flash'', ''-z'',
           ''0x2000'', bootloader,
           ''0x8000'', partitions]
      | Underscore_c5_flasher \<Rightarrow>
          [''--chip'', ''esp32c5'',
           ''--port'', serial_port,
           ''--baud'', ''921600'',
           ''--before'', ''default_reset'',
           ''--after'', ''hard_reset'',
           ''--flash_mode'', ''qio'',
           ''--flash_freq'', ''80m'',
           ''--flash_size'', ''4MB'',
           ''write_flash'', ''-z'',
           ''0x0'', bootloader,
           ''0x8000'', partitions])
     @ (if truthy ota_data then [''0xd000'', the ota_data] else [])
     @ [''0x10000'', app_bin]"

text \<open>The messages.\<close>

definition splash_lines :: "string list" where
  "splash_lines =
     [''--  ESP32 C5 Flasher --'',
      ''By AWOK'',
      ''Inspired from LordSkeletonMans ESP32 FZEasyFlasher'',
      ''Shout out to JCMK for the inspiration on setting up the C5'',
      '''']"

definition splash :: "nat \<Rightarrow> string" where
  "splash terminal_width =
     Fore_MAGENTA @ newline @ str_join newline (map (center terminal_width) splash_lines)
       @ Style_RESET_ALL"

definition bins_not_found :: "string \<Rightarrow> string" where
  "bins_not_found bins_dir =
     Fore_RED @ ''Bins directory not found: '' @ bins_dir @ newline
       @ ''Please create a 'bins' folder with your .bin files.'' @ Style_RESET_ALL"

definition detected :: "string \<Rightarrow> string" where
  "detected serial_port =
     Fore_GREEN @ ''Detected ESP32-C5 on port: '' @ serial_port @ Style_RESET_ALL"

definition no_application :: "script \<Rightarrow> string" where
  "no_application sc =
     (case sc of
        C5_flasher \<Rightarrow>
          Fore_RED @ ''No application firmware .bin file found in the 'bins' folder!''
            @ Style_RESET_ALL
      | Underscore_c5_flasher \<Rightarrow>
          Fore_RED @ ''No application firmware .bin file found in the folder!''
            @ Style_RESET_ALL)"

definition summary ::
    "string option \<Rightarrow> string option \<Rightarrow> string option \<Rightarrow> string \<Rightarrow> event list" where
  "summary bootloader partitions ota_data app_bin =
     [Print (Fore_CYAN @ newline @ ''Bootloader:   '' @ or_str bootloader ''NOT FOUND''),
      Print (''Partitions:   '' @ or_str partitions ''NOT FOUND''),
      Print (''OTA Data:     '' @ or_str ota_data ''NOT FOUND''),
      Print (''App (main):   '' @ app_bin @ newline @ Style_RESET_ALL)]"

definition missing_required :: string where
  "missing_required =
     Fore_RED
       @ ''Missing bootloader or partition table. Both are required for a complete flash!''
       @ Style_RESET_ALL"

definition prompt :: string where
  "prompt = Fore_YELLOW @ ''Ready to flash these files to ESP32-C5? (y/N): '' @ Style_RESET_ALL"

definition flashing :: string where
  "flashing =
     Fore_YELLOW @ ''Flashing ESP32-C5 with bootloader, partition table, and application...''
       @ Style_RESET_ALL"

definition flashing_complete :: string where
  "flashing_complete = Fore_GREEN @ ''Flashing complete!'' @ Style_RESET_ALL"

definition flashing_failed :: "string \<Rightarrow> string" where
  "flashing_failed msg = Fore_RED @ ''Flashing failed: '' @ msg @ Style_RESET_ALL"

text \<open>
  \<^verbatim>\<open>main()\<close> from the point where the serial port is known: locating the images,
  the summary, the confirmation and the call of \<^verbatim>\<open>esptool.main\<close>. \<^verbatim>\<open>exit(n)\<close> raises
  \<^verbatim>\<open>SystemExit(n)\<close>; \<^verbatim>\<open>except Exception\<close> catches an \<open>Exception\<close> and nothing else.
\<close>

definition main_from_port :: "script \<Rightarrow> env \<Rightarrow> string \<Rightarrow> string \<Rightarrow> event list \<times> outcome" where
  "main_from_port sc e bins_dir serial_port =
     (let bootloader = bootloader_of e bins_dir;
          partitions = partitions_of e bins_dir;
          ota_data = ota_data_of e bins_dir;
          candidates = firmware_bins e bins_dir
      in if candidates = [] then ([Print (no_application sc)], Raise (SystemExit 1))
         else
           case py_max (getsize e) candidates of
             Inl ValueError \<Rightarrow> ([], Raise (Exception ''max() arg is an empty sequence''))
           | Inr app_bin \<Rightarrow>
               let shown = summary bootloader partitions ota_data app_bin
               in if \<not> (truthy bootloader \<and> truthy partitions)
                  then (shown @ [Print missing_required], Raise (SystemExit 1))
                  else
                    let confirm = input_line e
                    in if lower (strip confirm) \<noteq> ''y''
                       then (shown @ [Input prompt, Print ''Aborting.''], Raise (SystemExit 0))
                       else
                         let args = esptool_args sc serial_port (the bootloader)
                                      (the partitions) ota_data app_bin;
                             evs = shown @ [Input prompt, Print flashing, Esptool_main args]
                         in case esptool_main e args of
                              Returns \<Rightarrow> (evs @ [Print flashing_complete], Return)
                            | Raises (Exception msg) \<Rightarrow>
                                (evs @ [Print (flashing_failed msg)], Return)
                            | Raises (SystemExit n) \<Rightarrow> (evs, Raise (SystemExit n)))"

text \<open>
  \<^verbatim>\<open>main()\<close>. Only \<^verbatim>\<open>c5_flasher.py\<close> checks that the directory exists and prints the
  splash. The first call of \<^verbatim>\<open>comports()\<close> gives the baseline; when the wait for a new
  port never ends, neither does \<^verbatim>\<open>main()\<close>, and the result is \<open>None\<close>.
\<close>

definition startup_events :: "script \<Rightarrow> env \<Rightarrow> event list" where
  "startup_events sc e =
     (case sc of C5_flasher \<Rightarrow> [Print (splash (terminal_columns e))]
               | Underscore_c5_flasher \<Rightarrow> [])"

definition main :: "script \<Rightarrow> env \<Rightarrow> (event list \<times> outcome) option" where
  "main sc e =
     (let bins_dir = bins_dir_of sc e
      in if sc = C5_flasher \<and> \<not> isdir e bins_dir
         then Some ([Print (bins_not_found bins_dir)], Raise (SystemExit 1))
         else
           let startup = startup_events sc e;
               existing_ports = py_set (comports e 0)
           in case find_new_serial_port e existing_ports of
                None \<Rightarrow> None
              | Some (serial_port, waited) \<Rightarrow>
                  let (evs, result) = main_from_port sc e bins_dir serial_port
                  in Some (startup @ waited @ [Print (detected serial_port)] @ evs, result))"

text \<open>
  For stating properties: the ports of the k-th poll that are not in the baseline, the
  exit status of the process, and the calls of \<^verbatim>\<open>esptool.main\<close> and the sleeps of a
  run.
\<close>

definition new_ports_at :: "env \<Rightarrow> string list \<Rightarrow> nat \<Rightarrow> string list" where
  "new_ports_at e existing_ports k = set_minus (py_set (comports e k)) existing_ports"

fun exit_status :: "outcome \<Rightarrow> int" where
  "exit_status Return = 0"
| "exit_status (Raise (SystemExit n)) = n"
| "exit_status (Raise (Exception msg)) = 1"

fun esptool_calls :: "event list \<Rightarrow> string list list" where
  "esptool_calls [] = []"
| "esptool_calls (Esptool_main args # evs) = args # esptool_calls evs"
| "esptool_calls (ev # evs) = esptool_calls evs"

fun sleeps :: "event list \<Rightarrow> rat list" where
  "sleeps [] = []"
| "sleeps (Sleep t # evs) = t # sleeps evs"
| "sleeps (ev # evs) = sleeps evs"

subsection \<open>Example runs\<close>

text \<open>
  A directory with \<^verbatim>\<open>bootloader.bin\<close> (1 KB), \<^verbatim>\<open>partitions.bin\<close> (2 KB) and
  \<^verbatim>\<open>app_v3.bin\<close> (500 KB). The port \<^verbatim>\<open>/dev/ttyS0\<close> of the baseline disappears and comes
  back while the script waits; \<^verbatim>\<open>/dev/ttyACM0\<close> appears at the third poll. The
  operator answers \<^verbatim>\<open>" y "\<close> and \<^verbatim>\<open>esptool.main\<close> returns.
\<close>

definition env_example :: env where
  "env_example =
     \<lparr>script_dir = ''/opt/flasher'',
      isdir = (\<lambda>p. p = ''/opt/flasher/bins''),
      terminal_columns = 80,
      comports = (\<lambda>k. if k = 0 then [''/dev/ttyS0'']
                      else if k = 1 then []
                      else if k = 2 then [''/dev/ttyS0'']
                      else [''/dev/ttyS0'', ''/dev/ttyACM0'']),
      pop_choice = 0,
      listdir = [''bootloader.bin'', ''partitions.bin'', ''app_v3.bin''],
      glob_elsewhere = (\<lambda>pattern. []),
      isfile = (\<lambda>p. True),
      getsize = (\<lambda>p. if p = ''/opt/flasher/bins/app_v3.bin'' then 512000
                     else if p = ''/opt/flasher/bins/partitions.bin'' then 2048
                     else 1024),
      input_line = '' y '',
      esptool_main = (\<lambda>args. Returns)\<rparr>"

text \<open>The same with only \<^verbatim>\<open>partitions.bin\<close> and a text file in the directory.\<close>

definition env_no_application :: env where
  "env_no_application = env_example\<lparr>listdir := [''partitions.bin'', ''notes.txt'']\<rparr>"

text \<open>The same without \<^verbatim>\<open>bootloader.bin\<close>.\<close>

definition env_no_bootloader :: env where
  "env_no_bootloader = env_example\<lparr>listdir := [''partitions.bin'', ''app_v3.bin'']\<rparr>"

text \<open>
  The same with a second candidate, \<^verbatim>\<open>factory_test.bin\<close> (1 KB), listed before
  \<^verbatim>\<open>app_v3.bin\<close>, and a hidden \<^verbatim>\<open>.cache.bin\<close>.
\<close>

definition env_two_candidates :: env where
  "env_two_candidates =
     env_example\<lparr>listdir := [''bootloader.bin'', ''factory_test.bin'', ''partitions.bin'',
                             ''.cache.bin'', ''app_v3.bin'', ''notes.txt'']\<rparr>"

text \<open>The operator answers \<^verbatim>\<open>"yes"\<close>.\<close>

definition env_decline :: env where
  "env_decline = env_example\<lparr>input_line := ''yes''\<rparr>"

text \<open>\<^verbatim>\<open>esptool.main\<close> raises an \<^verbatim>\<open>Exception\<close>, and \<^verbatim>\<open>SystemExit(2)\<close>.\<close>

definition env_flash_fails :: env where
  "env_flash_fails =
     env_example\<lparr>esptool_main := (\<lambda>args. Raises (Exception ''Failed to connect''))\<rparr>"

definition env_flash_exits :: env where
  "env_flash_exits = env_example\<lparr>esptool_main := (\<lambda>args. Raises (SystemExit 2))\<rparr>"

text \<open>
  Two directories with the same four files of 4 KB each; \<^verbatim>\<open>a.bin\<close> and \<^verbatim>\<open>b.bin\<close> are
  listed in opposite orders.
\<close>

definition env_tie_ab :: env where
  "env_tie_ab =
     env_example\<lparr>listdir := [''bootloader.bin'', ''partitions.bin'', ''a.bin'', ''b.bin''],
                 getsize := (\<lambda>p. 4096)\<rparr>"

definition env_tie_ba :: env where
  "env_tie_ba =
     env_example\<lparr>listdir := [''bootloader.bin'', ''partitions.bin'', ''b.bin'', ''a.bin''],
                 getsize := (\<lambda>p. 4096)\<rparr>"

section \<open>Auxiliary lemmas\<close>

subsection \<open>Sets of ports and the polling loop\<close>

lemma set_py_set: "set (py_set xs) = set xs"
  by (simp add: py_set_def)

lemma set_set_minus: "set (set_minus a b) = set a - set b"
  by (auto simp: set_minus_def)

lemma set_new_ports_at: "set (new_ports_at e ex k) = set (comports e k) - set ex"
  by (simp add: new_ports_at_def set_set_minus set_py_set)

lemma set_pop_mem: "s \<noteq> [] \<Longrightarrow> set_pop c s \<in> set s"
  by (simp add: set_pop_def)

lemma poll_ports_unfold:
  "poll_ports e ex k evs =
     (if new_ports_at e ex k \<noteq> [] then Some (set_pop (pop_choice e) (new_ports_at e ex k), evs)
      else poll_ports e ex (Suc k) (evs @ [Sleep (1 / 2)]))"
  by (subst poll_ports.simps) (simp add: new_ports_at_def Let_def)

lemma poll_ports_found:
  "new_ports_at e ex (k + n) \<noteq> [] \<Longrightarrow> (\<forall>j<n. new_ports_at e ex (k + j) = []) \<Longrightarrow>
   poll_ports e ex k evs =
     Some (set_pop (pop_choice e) (new_ports_at e ex (k + n)), evs @ replicate n (Sleep (1 / 2)))"
proof (induction n arbitrary: k evs)
  case 0
  then show ?case by (subst poll_ports_unfold) simp
next
  case (Suc n)
  from Suc.prems(2) have here: "new_ports_at e ex k = []"
    by (metis add.right_neutral zero_less_Suc)
  have later: "\<forall>j<n. new_ports_at e ex (Suc k + j) = []"
    using Suc.prems(2) by (metis Suc_less_eq add_Suc_shift)
  have hit: "new_ports_at e ex (Suc k + n) \<noteq> []"
    using Suc.prems(1) by simp
  have "poll_ports e ex k evs = poll_ports e ex (Suc k) (evs @ [Sleep (1 / 2)])"
    by (subst poll_ports_unfold) (simp add: here)
  also have "\<dots> = Some (set_pop (pop_choice e) (new_ports_at e ex (Suc k + n)),
                        (evs @ [Sleep (1 / 2)]) @ replicate n (Sleep (1 / 2)))"
    by (rule Suc.IH [OF hit later])
  finally show ?case by (simp add: replicate_app_Cons_same)
qed

lemma poll_ports_Some_ex:
  assumes "poll_ports e ex k evs = Some y"
  shows "\<exists>j. new_ports_at e ex (k + j) \<noteq> []"
proof (rule poll_ports.raw_induct
    [where P = "\<lambda>e ex k evs y. \<exists>j. new_ports_at e ex (k + j) \<noteq> []", OF _ assms])
  fix poll e ex k evs and y :: "string \<times> event list"
  assume IH: "\<And>e ex k evs y. poll e ex k evs = Some y \<Longrightarrow> \<exists>j. new_ports_at e ex (k + j) \<noteq> []"
    and step: "(let current_ports = py_set (comports e k);
            new_ports = set_minus current_ports ex
        in if new_ports \<noteq> []
           then Some (set_pop (pop_choice e) new_ports, evs)
           else poll e ex (Suc k) (evs @ [Sleep (1 / 2)])) = Some y"
  show "\<exists>j. new_ports_at e ex (k + j) \<noteq> []"
  proof (cases "new_ports_at e ex k = []")
    case True
    with step have "poll e ex (Suc k) (evs @ [Sleep (1 / 2)]) = Some y"
      by (simp add: new_ports_at_def Let_def)
    from IH [OF this] obtain j where "new_ports_at e ex (Suc k + j) \<noteq> []" by blast
    then have "new_ports_at e ex (k + Suc j) \<noteq> []" by simp
    then show ?thesis by blast
  next
    case False
    then have "new_ports_at e ex (k + 0) \<noteq> []" by simp
    then show ?thesis by blast
  qed
qed

lemma poll_ports_never:
  "(\<forall>j. new_ports_at e ex (k + j) = []) \<Longrightarrow> poll_ports e ex k evs = None"
  using poll_ports_Some_ex [of e ex k evs] by (cases "poll_ports e ex k evs") auto

lemma poll_ports_SomeD:
  assumes "poll_ports e ex k evs = Some (p, evs')"
  shows "\<exists>n. new_ports_at e ex (k + n) \<noteq> [] \<and> (\<forall>j<n. new_ports_at e ex (k + j) = []) \<and>
             p = set_pop (pop_choice e) (new_ports_at e ex (k + n)) \<and>
             evs' = evs @ replicate n (Sleep (1 / 2))"
proof -
  from poll_ports_Some_ex [OF assms] obtain j where j: "new_ports_at e ex (k + j) \<noteq> []" ..
  define n where "n = (LEAST j. new_ports_at e ex (k + j) \<noteq> [])"
  have hit: "new_ports_at e ex (k + n) \<noteq> []"
    unfolding n_def using j by (rule LeastI)
  have before: "\<forall>i<n. new_ports_at e ex (k + i) = []"
    unfolding n_def using not_less_Least by blast
  from poll_ports_found [OF hit before, of evs] assms
  have "p = set_pop (pop_choice e) (new_ports_at e ex (k + n))"
    and "evs' = evs @ replicate n (Sleep (1 / 2))" by simp_all
  with hit before show ?thesis by blast
qed

subsection \<open>Finding files and the largest candidate\<close>

lemma join_nonempty: "b \<noteq> [] \<Longrightarrow> join a b \<noteq> []"
  by (simp add: join_def)

lemma plain_dir_example: "plain_dir ''/opt/flasher/bins''" "plain_dir ''/opt/flasher''"
  by (simp_all add: plain_dir_def has_magic_def)

lemma plain_role_names:
  "plain_name ''bootloader.bin''" "plain_name ''partition-table.bin''"
  "plain_name ''partitions.bin''" "plain_name ''ota_data_initial.bin''"
  by (simp_all add: plain_name_def has_magic_def)

lemma glob_name_plain:
  "plain_dir d \<Longrightarrow> plain_name name \<Longrightarrow>
   glob_name e d name = (if name \<in> set (listdir e) then [join d name] else [])"
  by (simp add: glob_name_def)

lemma glob_name_nonempty: "p \<in> set (glob_name e d name) \<Longrightarrow> p \<noteq> []"
  by (auto simp: glob_name_def plain_name_def join_nonempty split: if_splits)

lemma find_file_nonempty: "find_file e names d = Some f \<Longrightarrow> f \<noteq> []"
proof (induction names)
  case Nil
  then show ?case by simp
next
  case (Cons name rest)
  show ?case
  proof (cases "glob_name e d name")
    case Nil
    with Cons show ?thesis by simp
  next
    case (Cons p ps)
    with Cons.prems have "f = p" by simp
    moreover have "p \<in> set (glob_name e d name)" by (simp add: Cons)
    ultimately show ?thesis using glob_name_nonempty by blast
  qed
qed

lemma find_file_first:
  "find_file e names d =
     (case filter (\<lambda>n. glob_name e d n \<noteq> []) names of
        [] \<Rightarrow> None | n # _ \<Rightarrow> Some (hd (glob_name e d n)))"
  by (induction names) (auto split: list.split)

lemma find_file_eq:
  "plain_dir d \<Longrightarrow> \<forall>n\<in>set names. plain_name n \<Longrightarrow>
   find_file e names d =
     (case filter (\<lambda>n. n \<in> set (listdir e)) names of [] \<Rightarrow> None | n # _ \<Rightarrow> Some (join d n))"
  by (induction names) (simp_all add: glob_name_plain)

lemma bootloader_of_eq:
  "plain_dir d \<Longrightarrow>
   bootloader_of e d =
     (if ''bootloader.bin'' \<in> set (listdir e) then Some (join d ''bootloader.bin'') else None)"
  by (simp add: bootloader_of_def glob_name_plain plain_role_names)

lemma partitions_of_eq:
  "plain_dir d \<Longrightarrow>
   partitions_of e d =
     (if ''partition-table.bin'' \<in> set (listdir e) then Some (join d ''partition-table.bin'')
      else if ''partitions.bin'' \<in> set (listdir e) then Some (join d ''partitions.bin'')
      else None)"
  by (simp add: partitions_of_def glob_name_plain plain_role_names)

lemma ota_data_of_eq:
  "plain_dir d \<Longrightarrow>
   ota_data_of e d =
     (if ''ota_data_initial.bin'' \<in> set (listdir e) then Some (join d ''ota_data_initial.bin'')
      else None)"
  by (simp add: ota_data_of_def glob_name_plain plain_role_names)

lemma truthy_found: "truthy (find_file e names d) = (find_file e names d \<noteq> None)"
  using find_file_nonempty [of e names d]
  by (cases "find_file e names d") (simp_all add: truthy_def)

lemma truthy_bootloader_of: "truthy (bootloader_of e d) = (bootloader_of e d \<noteq> None)"
  unfolding bootloader_of_def by (rule truthy_found)

lemma truthy_partitions_of: "truthy (partitions_of e d) = (partitions_of e d \<noteq> None)"
  unfolding partitions_of_def by (rule truthy_found)

lemma truthy_ota_data_of: "truthy (ota_data_of e d) = (ota_data_of e d \<noteq> None)"
  unfolding ota_data_of_def by (rule truthy_found)

lemma max_from_split:
  "\<exists>pre post. m # xs = pre @ max_from key m xs # post \<and>
      (\<forall>y\<in>set pre. key y < key (max_from key m xs)) \<and>
      (\<forall>y\<in>set post. key y \<le> key (max_from key m xs))"
proof (induction xs arbitrary: m)
  case Nil
  show ?case by (intro exI [of _ "[]"]) simp
next
  case (Cons x xs)
  define m' where "m' = (if key x > key m then x else m)"
  define r where "r = max_from key m' xs"
  have r: "max_from key m (x # xs) = r" by (simp add: r_def m'_def)
  from Cons.IH [of m'] obtain pre post where
    split: "m' # xs = pre @ r # post"
    and lt: "\<forall>y\<in>set pre. key y < key r"
    and le: "\<forall>y\<in>set post. key y \<le> key r"
    unfolding r_def by blast
  have km: "key m \<le> key m'" and kx: "key x \<le> key m'" by (simp_all add: m'_def)
  show ?case
  proof (cases pre)
    case Nil
    with split have rm: "r = m'" and post: "post = xs" by simp_all
    show ?thesis
    proof (cases "key x > key m")
      case True
      then have "r = x" by (simp add: rm m'_def)
      then have "m # x # xs = [m] @ r # xs" by simp
      moreover have "\<forall>y\<in>set [m]. key y < key r" using True \<open>r = x\<close> by simp
      moreover have "\<forall>y\<in>set xs. key y \<le> key r" using le post by simp
      ultimately show ?thesis unfolding r by blast
    next
      case False
      then have "r = m" by (simp add: rm m'_def)
      then have "m # x # xs = [] @ r # (x # xs)" by simp
      moreover have "\<forall>y\<in>set (x # xs). key y \<le> key r"
        using le post False \<open>r = m\<close> by auto
      ultimately show ?thesis unfolding r by (metis empty_iff empty_set)
    qed
  next
    case (Cons p pre')
    with split have p: "p = m'" and xs: "xs = pre' @ r # post" by simp_all
    from lt Cons p have "key m' < key r" by simp
    with km kx have "key m < key r" "key x < key r" by simp_all
    moreover from lt Cons have "\<forall>y\<in>set pre'. key y < key r" by simp
    ultimately have "\<forall>y\<in>set (m # x # pre'). key y < key r" by simp
    moreover have "m # x # xs = (m # x # pre') @ r # post" using xs by simp
    ultimately show ?thesis unfolding r using le by blast
  qed
qed

lemma py_max_first:
  assumes "xs \<noteq> []"
  shows "\<exists>i<length xs. py_max key xs = Inr (xs ! i) \<and>
           (\<forall>j<length xs. key (xs ! j) \<le> key (xs ! i)) \<and>
           (\<forall>j<i. key (xs ! j) < key (xs ! i))"
proof -
  from assms obtain m rest where xs: "xs = m # rest" by (cases xs) auto
  define r where "r = max_from key m rest"
  from max_from_split [of m rest key] obtain pre post where
    split: "xs = pre @ r # post"
    and lt: "\<forall>y\<in>set pre. key y < key r"
    and le: "\<forall>y\<in>set post. key y \<le> key r"
    unfolding r_def xs by blast
  have at: "xs ! length pre = r" by (simp add: split)
  have len: "length pre < length xs" by (simp add: split)
  have "py_max key xs = Inr (xs ! length pre)" by (simp add: at) (simp add: py_max_def xs r_def)
  moreover have "\<forall>j<length pre. key (xs ! j) < key (xs ! length pre)"
    using lt by (simp add: at) (simp add: split nth_append)
  moreover have "\<forall>j<length xs. key (xs ! j) \<le> key (xs ! length pre)"
  proof (intro allI impI)
    fix j assume "j < length xs"
    then have "xs ! j \<in> set xs" by simp
    then have "xs ! j \<in> set pre \<or> xs ! j = r \<or> xs ! j \<in> set post" by (auto simp: split)
    then show "key (xs ! j) \<le> key (xs ! length pre)"
      using lt le unfolding at by (auto intro: less_imp_le)
  qed
  ultimately show ?thesis using len by blast
qed

lemma py_max_Inr_mem:
  assumes "py_max key xs = Inr a"
  shows "a \<in> set xs"
proof (cases xs)
  case Nil
  with assms show ?thesis by (simp add: py_max_def)
next
  case (Cons m rest)
  with assms have a: "a = max_from key m rest" by (simp add: py_max_def)
  from max_from_split [of m rest key] obtain pre post where "m # rest = pre @ a # post"
    unfolding a by blast
  then show ?thesis by (simp add: Cons)
qed

lemma py_max_Inr_ge:
  assumes "py_max key xs = Inr a" and "x \<in> set xs"
  shows "key x \<le> key a"
proof -
  from assms(2) have "xs \<noteq> []" by auto
  from py_max_first [OF this, of key] assms(1) obtain i where
    "a = xs ! i" and le: "\<forall>j<length xs. key (xs ! j) \<le> key (xs ! i)" by auto
  moreover from assms(2) obtain j where "j < length xs" and "x = xs ! j"
    by (auto simp: in_set_conv_nth)
  ultimately show ?thesis by simp
qed

lemma py_max_Inr_iff: "(\<exists>a. py_max key xs = Inr a) = (xs \<noteq> [])"
  by (cases xs) (simp_all add: py_max_def)

subsection \<open>The operator's answer\<close>

lemma of_char_y: "(of_char CHR ''y'' :: nat) = 121"
  by simp

lemma of_char_Y: "(of_char CHR ''Y'' :: nat) = 89"
  by simp

lemma lower_char_y: "lower_char c = CHR ''y'' \<longleftrightarrow> c = CHR ''y'' \<or> c = CHR ''Y''"
proof -
  define n where "n = (of_char c :: nat)"
  have c: "c = char_of n" by (simp add: n_def)
  have n: "n < 256" by (simp add: n_def)
  have y: "(c = CHR ''y'') = (n = 121)"
    unfolding n_def by (metis of_char_y of_char_eq_iff)
  have Y: "(c = CHR ''Y'') = (n = 89)"
    unfolding n_def by (metis of_char_Y of_char_eq_iff)
  have up: "\<And>m::nat. m < 256 \<Longrightarrow> (char_of m = CHR ''y'') = (m = 121)"
    by (simp add: char_of_eq_iff take_bit_nat_eq_self)
  show ?thesis
    unfolding lower_char_def Let_def n_def [symmetric] y Y
    using n by (auto simp: up y)
qed

lemma lower_y: "lower s = ''y'' \<longleftrightarrow> s = ''y'' \<or> s = ''Y''"
  by (cases s) (auto simp: lower_def lower_char_y)

subsection \<open>Runs of \<^verbatim>\<open>main\<close>\<close>

lemma esptool_calls_append: "esptool_calls (xs @ ys) = esptool_calls xs @ esptool_calls ys"
  by (induction xs rule: esptool_calls.induct) simp_all

lemma sleeps_append: "sleeps (xs @ ys) = sleeps xs @ sleeps ys"
  by (induction xs rule: sleeps.induct) simp_all

lemma esptool_calls_replicate_Sleep: "esptool_calls (replicate n (Sleep t)) = []"
  by (induction n) simp_all

lemma sleeps_replicate_Sleep: "sleeps (replicate n (Sleep t)) = replicate n t"
  by (induction n) simp_all

lemma esptool_calls_summary: "esptool_calls (summary b p ota a) = []"
  by (simp add: summary_def)

lemma esptool_calls_startup: "esptool_calls (startup_events sc e) = []"
  by (cases sc) (simp_all add: startup_events_def)

lemma find_new_serial_port_SomeD:
  assumes "find_new_serial_port e ex = Some (p, evs)"
  shows "\<exists>n. new_ports_at e ex (Suc n) \<noteq> [] \<and> (\<forall>j<n. new_ports_at e ex (Suc j) = []) \<and>
             p = set_pop (pop_choice e) (new_ports_at e ex (Suc n)) \<and>
             evs = Print waiting # replicate n (Sleep (1 / 2))"
  using poll_ports_SomeD [of e ex 1 "[Print waiting]" p evs] assms
  by (simp add: find_new_serial_port_def)

lemma esptool_calls_waited:
  "find_new_serial_port e ex = Some (p, evs) \<Longrightarrow> esptool_calls evs = []"
  by (auto dest!: find_new_serial_port_SomeD simp: esptool_calls_replicate_Sleep)

lemma main_eq:
  assumes "sc = C5_flasher \<longrightarrow> isdir e (bins_dir_of sc e)"
    and "find_new_serial_port e (py_set (comports e 0)) = Some (port, waited)"
  shows "main sc e =
     Some (startup_events sc e @ waited @ [Print (detected port)]
             @ fst (main_from_port sc e (bins_dir_of sc e) port),
           snd (main_from_port sc e (bins_dir_of sc e) port))"
  using assms by (cases sc) (simp_all add: main_def Let_def split: prod.split)

lemma main_from_port_no_app:
  "firmware_bins e d = [] \<Longrightarrow>
   main_from_port sc e d port = ([Print (no_application sc)], Raise (SystemExit 1))"
  by (simp add: main_from_port_def)

lemma py_max_Inr_nonempty: "py_max key xs = Inr a \<Longrightarrow> xs \<noteq> []"
  by (cases xs) (simp_all add: py_max_def)

lemma main_from_port_missing:
  assumes "py_max (getsize e) (firmware_bins e d) = Inr app"
    and "bootloader_of e d = None \<or> partitions_of e d = None"
  shows "main_from_port sc e d port =
     (summary (bootloader_of e d) (partitions_of e d) (ota_data_of e d) app
        @ [Print missing_required], Raise (SystemExit 1))"
  using assms py_max_Inr_nonempty [OF assms(1)]
  by (auto simp: main_from_port_def Let_def truthy_bootloader_of truthy_partitions_of)

lemma main_from_port_decline:
  assumes "py_max (getsize e) (firmware_bins e d) = Inr app"
    and "bootloader_of e d \<noteq> None" and "partitions_of e d \<noteq> None"
    and "lower (strip (input_line e)) \<noteq> ''y''"
  shows "main_from_port sc e d port =
     (summary (bootloader_of e d) (partitions_of e d) (ota_data_of e d) app
        @ [Input prompt, Print ''Aborting.''], Raise (SystemExit 0))"
  using assms py_max_Inr_nonempty [OF assms(1)]
  by (simp add: main_from_port_def Let_def truthy_bootloader_of truthy_partitions_of)

lemma main_from_port_flash:
  assumes "py_max (getsize e) (firmware_bins e d) = Inr app"
    and "bootloader_of e d = Some b" and "partitions_of e d = Some pt"
    and "lower (strip (input_line e)) = ''y''"
    and "args = esptool_args sc port b pt (ota_data_of e d) app"
  shows "main_from_port sc e d port =
     (summary (Some b) (Some pt) (ota_data_of e d) app
        @ [Input prompt, Print flashing, Esptool_main args]
        @ (case esptool_main e args of
             Returns \<Rightarrow> [Print flashing_complete]
           | Raises (Exception msg) \<Rightarrow> [Print (flashing_failed msg)]
           | Raises (SystemExit n) \<Rightarrow> []),
      case esptool_main e args of
        Returns \<Rightarrow> Return
      | Raises (Exception msg) \<Rightarrow> Return
      | Raises (SystemExit n) \<Rightarrow> Raise (SystemExit n))"
proof -
  have tb: "truthy (bootloader_of e d)" and tp: "truthy (partitions_of e d)"
    using assms(2,3) truthy_bootloader_of [of e d] truthy_partitions_of [of e d] by simp_all
  show ?thesis
    using assms py_max_Inr_nonempty [OF assms(1)] tb tp
    by (simp add: main_from_port_def Let_def split: call_result.split exc.split)
qed

lemma esptool_args_eq:
  "bootloader_of e d = Some b \<Longrightarrow> partitions_of e d = Some pt \<Longrightarrow>
   esptool_args sc port b pt (ota_data_of e d) app =
     [''--chip'', ''esp32c5'', ''--port'', port, ''--baud'', ''921600'',
      ''--before'', ''default_reset'', ''--after'', ''hard_reset'']
     @ (case sc of C5_flasher \<Rightarrow> []
        | Underscore_c5_flasher \<Rightarrow>
            [''--flash_mode'', ''qio'', ''--flash_freq'', ''80m'', ''--flash_size'', ''4MB''])
     @ [''write_flash'', ''-z'']
     @ [case sc of C5_flasher \<Rightarrow> ''0x2000'' | Underscore_c5_flasher \<Rightarrow> ''0x0'', b]
     @ [''0x8000'', pt]
     @ (case ota_data_of e d of None \<Rightarrow> [] | Some ota \<Rightarrow> [''0xd000'', ota])
     @ [''0x10000'', app]"
  using truthy_ota_data_of [of e d]
  by (cases sc; cases "ota_data_of e d") (simp_all add: esptool_args_def)

subsection \<open>The example, evaluated\<close>

lemma env_example_baseline: "py_set (comports env_example 0) = [''/dev/ttyS0'']"
  by (simp add: env_example_def py_set_def)

lemma env_example_port:
  "find_new_serial_port env_example [''/dev/ttyS0''] =
     Some (''/dev/ttyACM0'', [Print waiting, Sleep (1 / 2), Sleep (1 / 2)])"
  by (simp add: find_new_serial_port_def poll_ports_unfold new_ports_at_def env_example_def
      py_set_def set_minus_def set_pop_def)

lemma env_example_dir: "bins_dir_of C5_flasher env_example = ''/opt/flasher/bins''"
  by (simp add: bins_dir_of_def env_example_def join_def)

lemma env_example_firmware_bins:
  "firmware_bins env_example ''/opt/flasher/bins'' = [''/opt/flasher/bins/app_v3.bin'']"
  by (simp add: firmware_bins_def glob_bins_def plain_dir_example bootloader_of_eq partitions_of_eq ota_data_of_eq
      env_example_def join_def ishidden_def fnmatch_bin_def)

subsection \<open>What the port watcher returns\<close>

lemma fresh_port: "\<exists>f::string. f \<notin> set baseline"
  by (metis finite_set infinite_UNIV_listI ex_new_if_finite)

lemma watcher_returns_new:
  assumes "find_new_serial_port e baseline = Some (p, evs)"
  shows "\<exists>k\<ge>1. p \<in> set (comports e k) - set baseline \<and>
           (\<forall>j. 1 \<le> j \<and> j < k \<longrightarrow> set (comports e j) - set baseline = {}) \<and>
           evs = Print waiting # replicate (k - 1) (Sleep (1 / 2))"
proof -
  from find_new_serial_port_SomeD [OF assms] obtain n where
    hit: "new_ports_at e baseline (Suc n) \<noteq> []"
    and before: "\<forall>j<n. new_ports_at e baseline (Suc j) = []"
    and p: "p = set_pop (pop_choice e) (new_ports_at e baseline (Suc n))"
    and evs: "evs = Print waiting # replicate n (Sleep (1 / 2))" by blast
  from set_pop_mem [OF hit] have "p \<in> set (comports e (Suc n)) - set baseline"
    unfolding p set_new_ports_at [symmetric] .
  moreover have "\<forall>j. 1 \<le> j \<and> j < Suc n \<longrightarrow> set (comports e j) - set baseline = {}"
  proof (intro allI impI)
    fix j assume j: "1 \<le> j \<and> j < Suc n"
    then obtain i where "j = Suc i" and "i < n" by (cases j) auto
    with before have "new_ports_at e baseline j = []" by simp
    then have "set (new_ports_at e baseline j) = {}" by simp
    then show "set (comports e j) - set baseline = {}" by (simp only: set_new_ports_at)
  qed
  ultimately show ?thesis using evs
    by (intro exI [of _ "Suc n"]) simp
qed

lemma watcher_returns_when_new:
  assumes "1 \<le> k" and "set (comports e k) - set baseline \<noteq> {}"
  shows "\<exists>p evs. find_new_serial_port e baseline = Some (p, evs)"
proof (cases "find_new_serial_port e baseline")
  case None
  have "\<forall>j. new_ports_at e baseline (1 + j) = []"
  proof (rule ccontr)
    assume "\<not> (\<forall>j. new_ports_at e baseline (1 + j) = [])"
    then obtain j where j: "new_ports_at e baseline (1 + j) \<noteq> []" by blast
    define n where "n = (LEAST j. new_ports_at e baseline (1 + j) \<noteq> [])"
    have hit: "new_ports_at e baseline (1 + n) \<noteq> []"
      unfolding n_def using j by (rule LeastI)
    have before: "\<forall>i<n. new_ports_at e baseline (1 + i) = []"
      unfolding n_def using not_less_Least by blast
    from poll_ports_found [OF hit before, of "[Print waiting]"] None
    show False by (simp add: find_new_serial_port_def)
  qed
  moreover from assms(1) obtain i where "k = 1 + i" by (cases k) auto
  ultimately have "new_ports_at e baseline k = []" by simp
  then have "set (new_ports_at e baseline k) = {}" by simp
  with assms(2) show ?thesis by (simp only: set_new_ports_at)
next
  case (Some a)
  then show ?thesis by (cases a) simp
qed

lemma watcher_blocks:
  assumes "\<forall>k\<ge>1. set (comports e k) - set baseline = {}"
  shows "find_new_serial_port e baseline = None"
proof -
  have "\<forall>j. new_ports_at e baseline (1 + j) = []"
  proof
    fix j
    from assms have "set (comports e (1 + j)) - set baseline = {}" by simp
    then have "set (new_ports_at e baseline (1 + j)) = {}" by (simp only: set_new_ports_at)
    then show "new_ports_at e baseline (1 + j) = []" by simp
  qed
  then show ?thesis unfolding find_new_serial_port_def by (rule poll_ports_never)
qed

lemma watcher_unbounded:
  "\<exists>polls p evs. find_new_serial_port (e\<lparr>comports := polls\<rparr>) baseline = Some (p, evs) \<and>
      length (sleeps evs) = n"
proof -
  obtain f :: string where f: "f \<notin> set baseline" using fresh_port by blast
  define polls where "polls = (\<lambda>k. if k \<le> n then baseline else [f])"
  define e' where "e' = e\<lparr>comports := polls\<rparr>"
  have hit: "new_ports_at e' baseline (1 + n) \<noteq> []"
    using f by (simp add: new_ports_at_def e'_def polls_def py_set_def set_minus_def)
  have before: "\<forall>j<n. new_ports_at e' baseline (1 + j) = []"
    by (auto simp: new_ports_at_def e'_def polls_def py_set_def set_minus_def filter_empty_conv)
  from poll_ports_found [OF hit before, of "[Print waiting]"]
  have "find_new_serial_port e' baseline =
          Some (set_pop (pop_choice e') (new_ports_at e' baseline (1 + n)),
                [Print waiting] @ replicate n (Sleep (1 / 2)))"
    by (simp add: find_new_serial_port_def)
  moreover have "length (sleeps ([Print waiting] @ replicate n (Sleep (1 / 2)))) = n"
    by (simp add: sleeps_replicate_Sleep)
  ultimately show ?thesis unfolding e'_def by blast
qed

section \<open>The port watcher\<close>

text \<open>
  C7: When the port watcher returns, the identifier it returns is in the difference of
  some polled port set and the baseline, at the first poll k where that difference is
  not empty, and every poll before it was followed by one \<^verbatim>\<open>time.sleep(0.5)\<close>. The
  watcher returns as soon as some poll shows a new port, and never returns when no poll
  does; for every number n there is a sequence of polls on which it sleeps n times
  before it returns.
\<close>

theorem C7_port_watcher:
  "(\<forall>p evs. find_new_serial_port e baseline = Some (p, evs) \<longrightarrow>
      (\<exists>k\<ge>1. p \<in> set (comports e k) - set baseline \<and>
         (\<forall>j. 1 \<le> j \<and> j < k \<longrightarrow> set (comports e j) - set baseline = {}) \<and>
         evs = Print waiting # replicate (k - 1) (Sleep (1 / 2)) \<and>
         sleeps evs = replicate (k - 1) (1 / 2)))
   \<and> (\<forall>k\<ge>1. set (comports e k) - set baseline \<noteq> {} \<longrightarrow>
        (\<exists>p evs. find_new_serial_port e baseline = Some (p, evs)))
   \<and> ((\<forall>k\<ge>1. set (comports e k) - set baseline = {}) \<longrightarrow>
        find_new_serial_port e baseline = None)
   \<and> (\<forall>n. \<exists>polls p evs.
        find_new_serial_port (e\<lparr>comports := polls\<rparr>) baseline = Some (p, evs) \<and>
        length (sleeps evs) = n)"
proof (intro conjI allI impI)
  fix p evs
  assume "find_new_serial_port e baseline = Some (p, evs)"
  from watcher_returns_new [OF this] obtain k where k: "k \<ge> 1"
    "p \<in> set (comports e k) - set baseline"
    "\<forall>j. 1 \<le> j \<and> j < k \<longrightarrow> set (comports e j) - set baseline = {}"
    "evs = Print waiting # replicate (k - 1) (Sleep (1 / 2))" by blast
  moreover from k(4) have "sleeps evs = replicate (k - 1) (1 / 2)"
    by (simp add: sleeps_replicate_Sleep)
  ultimately show "\<exists>k\<ge>1. p \<in> set (comports e k) - set baseline \<and>
         (\<forall>j. 1 \<le> j \<and> j < k \<longrightarrow> set (comports e j) - set baseline = {}) \<and>
         evs = Print waiting # replicate (k - 1) (Sleep (1 / 2)) \<and>
         sleeps evs = replicate (k - 1) (1 / 2)" by blast
next
  fix k :: nat
  assume "1 \<le> k" and "set (comports e k) - set baseline \<noteq> {}"
  then show "\<exists>p evs. find_new_serial_port e baseline = Some (p, evs)"
    by (rule watcher_returns_when_new)
next
  assume "\<forall>k\<ge>1. set (comports e k) - set baseline = {}"
  then show "find_new_serial_port e baseline = None" by (rule watcher_blocks)
next
  fix n
  show "\<exists>polls p evs.
        find_new_serial_port (e\<lparr>comports := polls\<rparr>) baseline = Some (p, evs) \<and>
        length (sleeps evs) = n" by (rule watcher_unbounded)
qed

theorem C7_port_watcher_witness:
  "find_new_serial_port env_example [''/dev/ttyS0''] =
     Some (''/dev/ttyACM0'', [Print waiting, Sleep (1 / 2), Sleep (1 / 2)])
   \<and> (\<exists>k\<ge>1. ''/dev/ttyACM0'' \<in> set (comports env_example k) - set [''/dev/ttyS0''] \<and>
         (\<forall>j. 1 \<le> j \<and> j < k \<longrightarrow> set (comports env_example j) - set [''/dev/ttyS0''] = {}) \<and>
         sleeps [Print waiting, Sleep (1 / 2), Sleep (1 / 2)] = replicate (k - 1) (1 / 2))"
  using C7_port_watcher [of env_example "[''/dev/ttyS0'']"] env_example_port
  by blast

lemma poll_ports_not_baseline:
  assumes "poll_ports e baseline k evs0 = Some (p, evs)"
  shows "p \<notin> set baseline"
proof -
  from poll_ports_SomeD [OF assms] obtain n where
    hit: "new_ports_at e baseline (k + n) \<noteq> []"
    and p: "p = set_pop (pop_choice e) (new_ports_at e baseline (k + n))" by blast
  from set_pop_mem [OF hit] have "p \<in> set (comports e (k + n)) - set baseline"
    unfolding p set_new_ports_at [symmetric] .
  then show ?thesis by simp
qed

text \<open>
  C10: A port of the baseline is never returned by the port watcher, from whichever poll
  the loop goes on and whatever the polls show while it waits: every poll is compared
  with the baseline the watcher was given, not with the poll before.
\<close>

theorem C10_baseline_port_never_returned:
  "(poll_ports e baseline k evs0 = Some (p, evs) \<longrightarrow> p \<notin> set baseline)
   \<and> (find_new_serial_port e baseline = Some (p, evs) \<longrightarrow> p \<notin> set baseline)"
  using poll_ports_not_baseline [of e baseline k evs0 p evs]
    poll_ports_not_baseline [of e baseline 1 "[Print waiting]" p evs]
  by (simp add: find_new_serial_port_def)

theorem C10_baseline_port_never_returned_witness:
  "comports env_example 0 = [''/dev/ttyS0''] \<and> comports env_example 1 = []
   \<and> comports env_example 2 = [''/dev/ttyS0'']
   \<and> find_new_serial_port env_example [''/dev/ttyS0''] =
       Some (''/dev/ttyACM0'', [Print waiting, Sleep (1 / 2), Sleep (1 / 2)])
   \<and> ''/dev/ttyACM0'' \<notin> set [''/dev/ttyS0'']"
  using C10_baseline_port_never_returned [of env_example "[''/dev/ttyS0'']" 1 "[Print waiting]"
      "''/dev/ttyACM0''" "[Print waiting, Sleep (1 / 2), Sleep (1 / 2)]"] env_example_port
  by (simp add: env_example_def)

section \<open>Looking up the images by name\<close>

lemma main_shows_summary:
  assumes dir: "sc = C5_flasher \<longrightarrow> isdir e (bins_dir_of sc e)"
    and port: "find_new_serial_port e (py_set (comports e 0)) = Some (serial_port, waited)"
    and app: "py_max (getsize e) (firmware_bins e (bins_dir_of sc e)) = Inr app_bin"
  shows "\<exists>post result. main sc e =
           Some (startup_events sc e @ waited @ [Print (detected serial_port)]
                   @ summary (bootloader_of e (bins_dir_of sc e)) (partitions_of e (bins_dir_of sc e))
                       (ota_data_of e (bins_dir_of sc e)) app_bin
                   @ post, result)"
proof -
  define d where "d = bins_dir_of sc e"
  note m = main_eq [OF dir port, folded d_def]
  note app' = app [folded d_def]
  consider (missing) "bootloader_of e d = None \<or> partitions_of e d = None"
    | (decline) "bootloader_of e d \<noteq> None" "partitions_of e d \<noteq> None"
        "lower (strip (input_line e)) \<noteq> ''y''"
    | (flash) "bootloader_of e d \<noteq> None" "partitions_of e d \<noteq> None"
        "lower (strip (input_line e)) = ''y''"
    by blast
  then show ?thesis
  proof cases
    case missing
    show ?thesis unfolding d_def [symmetric] m main_from_port_missing [OF app' missing]
      by simp
  next
    case decline
    show ?thesis unfolding d_def [symmetric] m main_from_port_decline [OF app' decline]
      by simp
  next
    case flash
    then obtain b pt where b: "bootloader_of e d = Some b" and pt: "partitions_of e d = Some pt"
      by auto
    show ?thesis
      unfolding d_def [symmetric] m main_from_port_flash [OF app' b pt flash(3) refl] b pt
      by simp
  qed
qed

lemma main_reaches_prompt:
  assumes dir: "sc = C5_flasher \<longrightarrow> isdir e (bins_dir_of sc e)"
    and port: "find_new_serial_port e (py_set (comports e 0)) = Some (serial_port, waited)"
    and app: "py_max (getsize e) (firmware_bins e (bins_dir_of sc e)) = Inr app_bin"
    and b: "bootloader_of e (bins_dir_of sc e) \<noteq> None"
    and pt: "partitions_of e (bins_dir_of sc e) \<noteq> None"
  shows "\<exists>post result. main sc e =
           Some (startup_events sc e @ waited @ [Print (detected serial_port)]
                   @ summary (bootloader_of e (bins_dir_of sc e)) (partitions_of e (bins_dir_of sc e))
                       (ota_data_of e (bins_dir_of sc e)) app_bin
                   @ [Input prompt] @ post, result)"
proof -
  define d where "d = bins_dir_of sc e"
  note m = main_eq [OF dir port, folded d_def]
  note app' = app [folded d_def]
  note b' = b [folded d_def] and pt' = pt [folded d_def]
  show ?thesis
  proof (cases "lower (strip (input_line e)) = ''y''")
    case False
    show ?thesis unfolding d_def [symmetric] m main_from_port_decline [OF app' b' pt' False]
      by simp
  next
    case True
    from b' pt' obtain bf pf where bf: "bootloader_of e d = Some bf"
      and pf: "partitions_of e d = Some pf" by auto
    show ?thesis
      unfolding d_def [symmetric] m main_from_port_flash [OF app' bf pf True refl] bf pf
      by simp
  qed
qed

text \<open>
  C3: Each role is looked up through its list of candidate names, in order, and the
  first name that matches wins. In a directory whose path has no wildcard character, a
  name matches when the directory holds it: \<^verbatim>\<open>bootloader.bin\<close> alone for the bootloader,
  \<^verbatim>\<open>partition-table.bin\<close> and then \<^verbatim>\<open>partitions.bin\<close> for the partition table,
  \<^verbatim>\<open>ota_data_initial.bin\<close> for the OTA data. A run that finds no OTA data still gets to
  the confirmation prompt, after printing that the OTA data was not found.
\<close>

theorem C3_role_lookup:
  "find_file e names d =
     (case filter (\<lambda>n. glob_name e d n \<noteq> []) names of
        [] \<Rightarrow> None | n # _ \<Rightarrow> Some (hd (glob_name e d n)))
   \<and> (plain_dir d \<longrightarrow>
       (\<forall>n. plain_name n \<longrightarrow>
          glob_name e d n = (if n \<in> set (listdir e) then [join d n] else []))
       \<and> bootloader_of e d =
           (if ''bootloader.bin'' \<in> set (listdir e) then Some (join d ''bootloader.bin'')
            else None)
       \<and> partitions_of e d =
           (if ''partition-table.bin'' \<in> set (listdir e)
            then Some (join d ''partition-table.bin'')
            else if ''partitions.bin'' \<in> set (listdir e) then Some (join d ''partitions.bin'')
            else None)
       \<and> ota_data_of e d =
           (if ''ota_data_initial.bin'' \<in> set (listdir e)
            then Some (join d ''ota_data_initial.bin'') else None))
   \<and> ((sc = C5_flasher \<longrightarrow> isdir e (bins_dir_of sc e)) \<longrightarrow>
       find_new_serial_port e (py_set (comports e 0)) = Some (serial_port, waited) \<longrightarrow>
       py_max (getsize e) (firmware_bins e (bins_dir_of sc e)) = Inr app_bin \<longrightarrow>
       bootloader_of e (bins_dir_of sc e) \<noteq> None \<longrightarrow>
       partitions_of e (bins_dir_of sc e) \<noteq> None \<longrightarrow>
       ota_data_of e (bins_dir_of sc e) = None \<longrightarrow>
       (\<exists>pre post result. main sc e =
          Some (pre @ [Print ''OTA Data:     NOT FOUND'',
                       Print (''App (main):   '' @ app_bin @ newline @ Style_RESET_ALL),
                       Input prompt] @ post, result)))"
proof (intro conjI impI allI)
  show "find_file e names d =
     (case filter (\<lambda>n. glob_name e d n \<noteq> []) names of
        [] \<Rightarrow> None | n # _ \<Rightarrow> Some (hd (glob_name e d n)))"
    by (rule find_file_first)
next
  fix n
  assume "plain_dir d" and "plain_name n"
  then show "glob_name e d n = (if n \<in> set (listdir e) then [join d n] else [])"
    by (rule glob_name_plain)
next
  assume "plain_dir d"
  then show "bootloader_of e d =
       (if ''bootloader.bin'' \<in> set (listdir e) then Some (join d ''bootloader.bin'')
        else None)"
    by (rule bootloader_of_eq)
next
  assume "plain_dir d"
  then show "partitions_of e d =
       (if ''partition-table.bin'' \<in> set (listdir e)
        then Some (join d ''partition-table.bin'')
        else if ''partitions.bin'' \<in> set (listdir e) then Some (join d ''partitions.bin'')
        else None)"
    by (rule partitions_of_eq)
next
  assume "plain_dir d"
  then show "ota_data_of e d =
       (if ''ota_data_initial.bin'' \<in> set (listdir e)
        then Some (join d ''ota_data_initial.bin'') else None)"
    by (rule ota_data_of_eq)
next
  assume dir: "sc = C5_flasher \<longrightarrow> isdir e (bins_dir_of sc e)"
    and port: "find_new_serial_port e (py_set (comports e 0)) = Some (serial_port, waited)"
    and app: "py_max (getsize e) (firmware_bins e (bins_dir_of sc e)) = Inr app_bin"
    and b: "bootloader_of e (bins_dir_of sc e) \<noteq> None"
    and pt: "partitions_of e (bins_dir_of sc e) \<noteq> None"
    and none: "ota_data_of e (bins_dir_of sc e) = None"
  from main_reaches_prompt [OF dir port app b pt] obtain post result where
    "main sc e =
       Some (startup_events sc e @ waited @ [Print (detected serial_port)]
               @ summary (bootloader_of e (bins_dir_of sc e)) (partitions_of e (bins_dir_of sc e))
                   (ota_data_of e (bins_dir_of sc e)) app_bin
               @ [Input prompt] @ post, result)" by blast
  then have "main sc e =
       Some ((startup_events sc e @ waited @ [Print (detected serial_port),
                Print (Fore_CYAN @ newline @ ''Bootloader:   ''
                         @ or_str (bootloader_of e (bins_dir_of sc e)) ''NOT FOUND''),
                Print (''Partitions:   ''
                         @ or_str (partitions_of e (bins_dir_of sc e)) ''NOT FOUND'')])
             @ [Print ''OTA Data:     NOT FOUND'',
                Print (''App (main):   '' @ app_bin @ newline @ Style_RESET_ALL),
                Input prompt] @ post, result)"
    by (simp add: none summary_def or_str_def truthy_def)
  then show "\<exists>pre post result. main sc e =
          Some (pre @ [Print ''OTA Data:     NOT FOUND'',
                       Print (''App (main):   '' @ app_bin @ newline @ Style_RESET_ALL),
                       Input prompt] @ post, result)" by blast
qed

lemma env_example_app:
  "py_max (getsize env_example) (firmware_bins env_example (bins_dir_of C5_flasher env_example)) =
     Inr ''/opt/flasher/bins/app_v3.bin''"
  by (simp add: env_example_dir env_example_firmware_bins py_max_def)

lemma env_example_isdir:
  "C5_flasher = C5_flasher \<longrightarrow> isdir env_example (bins_dir_of C5_flasher env_example)"
  by (simp add: env_example_dir) (simp add: env_example_def)

lemma env_example_port0:
  "find_new_serial_port env_example (py_set (comports env_example 0)) =
     Some (''/dev/ttyACM0'', [Print waiting, Sleep (1 / 2), Sleep (1 / 2)])"
  by (simp only: env_example_baseline env_example_port)

lemma env_example_listdir:
  "listdir env_example = [''bootloader.bin'', ''partitions.bin'', ''app_v3.bin'']"
  by (simp add: env_example_def)

theorem C3_role_lookup_witness:
  "bootloader_of env_example ''/opt/flasher/bins'' = Some ''/opt/flasher/bins/bootloader.bin''
   \<and> partitions_of env_example ''/opt/flasher/bins'' = Some ''/opt/flasher/bins/partitions.bin''
   \<and> ota_data_of env_example ''/opt/flasher/bins'' = None
   \<and> (\<exists>pre post result. main C5_flasher env_example =
          Some (pre @ [Print ''OTA Data:     NOT FOUND'',
                       Print (''App (main):   '' @ ''/opt/flasher/bins/app_v3.bin'' @ newline
                                @ Style_RESET_ALL),
                       Input prompt] @ post, result))"
proof -
  note c3 = C3_role_lookup [of env_example "[]" "''/opt/flasher/bins''" C5_flasher
      "''/dev/ttyACM0''" "[Print waiting, Sleep (1 / 2), Sleep (1 / 2)]"
      "''/opt/flasher/bins/app_v3.bin''"]
  have b: "bootloader_of env_example ''/opt/flasher/bins'' = Some ''/opt/flasher/bins/bootloader.bin''"
    using c3 by (simp add: plain_dir_example env_example_listdir join_def)
  have p: "partitions_of env_example ''/opt/flasher/bins'' = Some ''/opt/flasher/bins/partitions.bin''"
    using c3 by (simp add: plain_dir_example env_example_listdir join_def)
  have ota: "ota_data_of env_example ''/opt/flasher/bins'' = None"
    using c3 by (simp add: plain_dir_example env_example_listdir)
  have bb: "bootloader_of env_example (bins_dir_of C5_flasher env_example) \<noteq> None"
    by (simp add: env_example_dir b)
  have pp: "partitions_of env_example (bins_dir_of C5_flasher env_example) \<noteq> None"
    by (simp add: env_example_dir p)
  have oo: "ota_data_of env_example (bins_dir_of C5_flasher env_example) = None"
    by (simp add: env_example_dir ota)
  from c3 env_example_isdir env_example_port0 env_example_app bb pp oo
  have "\<exists>pre post result. main C5_flasher env_example =
          Some (pre @ [Print ''OTA Data:     NOT FOUND'',
                       Print (''App (main):   '' @ ''/opt/flasher/bins/app_v3.bin'' @ newline
                                @ Style_RESET_ALL),
                       Input prompt] @ post, result)" by blast
  with b p ota show ?thesis by blast
qed

section \<open>Selecting the application image\<close>


lemma firmware_bins_listing:
  "plain_dir d \<Longrightarrow>
   firmware_bins e d =
     map (join d)
       (filter (\<lambda>n. \<not> ishidden n \<and> fnmatch_bin n
                  \<and> Some (join d n) \<notin> {bootloader_of e d, partitions_of e d, ota_data_of e d}
                  \<and> isfile e (join d n))
          (listdir e))"
  by (simp add: firmware_bins_def glob_bins_def filter_map o_def Let_def conj_commute conj_left_commute)

lemma set_glob_bins:
  "plain_dir d \<Longrightarrow>
   set (glob_bins e d) = join d ` {n \<in> set (listdir e). \<not> ishidden n \<and> fnmatch_bin n}"
  by (auto simp: glob_bins_def)

lemma set_firmware_bins:
  "set (firmware_bins e d) =
     {f \<in> set (glob_bins e d).
        Some f \<notin> {bootloader_of e d, partitions_of e d, ota_data_of e d} \<and> isfile e f}"
  by (auto simp: firmware_bins_def Let_def)

lemma env_tie_ab_firmware_bins:
  "firmware_bins env_tie_ab ''/opt/flasher/bins'' =
     [''/opt/flasher/bins/a.bin'', ''/opt/flasher/bins/b.bin'']"
  by (simp add: firmware_bins_def glob_bins_def plain_dir_example bootloader_of_eq partitions_of_eq ota_data_of_eq
      env_tie_ab_def env_example_def join_def ishidden_def fnmatch_bin_def)

lemma env_tie_ba_firmware_bins:
  "firmware_bins env_tie_ba ''/opt/flasher/bins'' =
     [''/opt/flasher/bins/b.bin'', ''/opt/flasher/bins/a.bin'']"
  by (simp add: firmware_bins_def glob_bins_def plain_dir_example bootloader_of_eq partitions_of_eq ota_data_of_eq
      env_tie_ba_def env_example_def join_def ishidden_def fnmatch_bin_def)



lemma summary_app_last:
  "summary b p ota app =
     butlast (summary b p ota app) @ [Print (''App (main):   '' @ app @ newline @ Style_RESET_ALL)]"
  by (simp add: summary_def)

lemma no_candidate_iff:
  assumes "plain_dir d"
  shows "firmware_bins e d = [] \<longleftrightarrow>
    (\<forall>n\<in>set (listdir e). \<not> ishidden n \<and> fnmatch_bin n \<and> isfile e (join d n) \<longrightarrow>
       Some (join d n) \<in> {bootloader_of e d, partitions_of e d, ota_data_of e d})"
  unfolding firmware_bins_listing [OF assms] by (auto simp: filter_empty_conv)

text \<open>
  C2: The application image is looked for among the paths that \<^verbatim>\<open>glob\<close> gives for
  \<^verbatim>\<open>*.bin\<close>; in a directory whose path has no wildcard character these are the paths of
  all its names that end in \<^verbatim>\<open>.bin\<close> and do not start with a dot. The candidates are
  those that are regular files and are not the bootloader, partition-table or OTA path.
  When there is a candidate, the image selected is a candidate of maximal size, it
  differs from the three other paths, and the run prints it in the summary. When there
  is none (in a directory without wildcard character: when every such regular file has
  one of the three roles), the run prints the no-application message and ends with exit
  status 1.
\<close>

theorem C2_application_image:
  assumes dir: "sc = C5_flasher \<longrightarrow> isdir e (bins_dir_of sc e)"
    and port: "find_new_serial_port e (py_set (comports e 0)) = Some (serial_port, waited)"
    and d: "d = bins_dir_of sc e"
  shows "(plain_dir d \<longrightarrow>
        set (glob_bins e d) = join d ` {n \<in> set (listdir e). \<not> ishidden n \<and> fnmatch_bin n}
        \<and> (firmware_bins e d = [] \<longleftrightarrow>
             (\<forall>n\<in>set (listdir e).
                \<not> ishidden n \<and> fnmatch_bin n \<and> isfile e (join d n) \<longrightarrow>
                Some (join d n) \<in> {bootloader_of e d, partitions_of e d, ota_data_of e d})))
    \<and> set (firmware_bins e d) =
        {f \<in> set (glob_bins e d).
           Some f \<notin> {bootloader_of e d, partitions_of e d, ota_data_of e d} \<and> isfile e f}
    \<and> (firmware_bins e d \<noteq> [] \<longrightarrow>
         (\<exists>app_bin. py_max (getsize e) (firmware_bins e d) = Inr app_bin
            \<and> app_bin \<in> set (firmware_bins e d)
            \<and> (\<forall>f\<in>set (firmware_bins e d). getsize e f \<le> getsize e app_bin)
            \<and> Some app_bin \<noteq> bootloader_of e d
            \<and> Some app_bin \<noteq> partitions_of e d
            \<and> Some app_bin \<noteq> ota_data_of e d
            \<and> (\<exists>pre post result. main sc e =
                  Some (pre @ [Print (''App (main):   '' @ app_bin @ newline @ Style_RESET_ALL)]
                          @ post, result))))
    \<and> (firmware_bins e d = [] \<longrightarrow>
         main sc e =
           Some (startup_events sc e @ waited
                   @ [Print (detected serial_port), Print (no_application sc)],
                 Raise (SystemExit 1))
         \<and> exit_status (Raise (SystemExit 1)) = 1)"
proof (intro conjI impI)
  assume "plain_dir d"
  then show "set (glob_bins e d) =
      join d ` {n \<in> set (listdir e). \<not> ishidden n \<and> fnmatch_bin n}"
    by (rule set_glob_bins)
next
  assume "plain_dir d"
  then show "firmware_bins e d = [] \<longleftrightarrow>
             (\<forall>n\<in>set (listdir e).
                \<not> ishidden n \<and> fnmatch_bin n \<and> isfile e (join d n) \<longrightarrow>
                Some (join d n) \<in> {bootloader_of e d, partitions_of e d, ota_data_of e d})"
    by (rule no_candidate_iff)
next
  show "set (firmware_bins e d) =
        {f \<in> set (glob_bins e d).
           Some f \<notin> {bootloader_of e d, partitions_of e d, ota_data_of e d} \<and> isfile e f}"
    by (rule set_firmware_bins)
next
  show "exit_status (Raise (SystemExit 1)) = 1" by simp
next
  assume "firmware_bins e d = []"
  then show "main sc e =
           Some (startup_events sc e @ waited
                   @ [Print (detected serial_port), Print (no_application sc)],
                 Raise (SystemExit 1))"
    unfolding main_eq [OF dir port] d by (simp add: main_from_port_no_app)
next
  assume "firmware_bins e d \<noteq> []"
  then obtain app_bin where app: "py_max (getsize e) (firmware_bins e d) = Inr app_bin"
    using py_max_Inr_iff [of "getsize e" "firmware_bins e d"] by blast
  have mem: "app_bin \<in> set (firmware_bins e d)" using app by (rule py_max_Inr_mem)
  have ge: "\<forall>f\<in>set (firmware_bins e d). getsize e f \<le> getsize e app_bin"
    using py_max_Inr_ge [OF app] by blast
  have excl: "Some app_bin \<notin> {bootloader_of e d, partitions_of e d, ota_data_of e d}"
    using mem unfolding set_firmware_bins by blast
  from main_shows_summary [OF dir port app [unfolded d]] obtain post result where
    "main sc e =
       Some (startup_events sc e @ waited @ [Print (detected serial_port)]
               @ summary (bootloader_of e d) (partitions_of e d) (ota_data_of e d) app_bin
               @ post, result)" unfolding d by blast
  then have "main sc e =
       Some ((startup_events sc e @ waited @ [Print (detected serial_port)]
               @ butlast (summary (bootloader_of e d) (partitions_of e d) (ota_data_of e d) app_bin))
             @ [Print (''App (main):   '' @ app_bin @ newline @ Style_RESET_ALL)] @ post, result)"
    by (subst (asm) summary_app_last) simp
  then have shown: "\<exists>pre post result. main sc e =
       Some (pre @ [Print (''App (main):   '' @ app_bin @ newline @ Style_RESET_ALL)]
               @ post, result)" by blast
  from app mem ge excl shown
  show "\<exists>app_bin. py_max (getsize e) (firmware_bins e d) = Inr app_bin
            \<and> app_bin \<in> set (firmware_bins e d)
            \<and> (\<forall>f\<in>set (firmware_bins e d). getsize e f \<le> getsize e app_bin)
            \<and> Some app_bin \<noteq> bootloader_of e d
            \<and> Some app_bin \<noteq> partitions_of e d
            \<and> Some app_bin \<noteq> ota_data_of e d
            \<and> (\<exists>pre post result. main sc e =
                  Some (pre @ [Print (''App (main):   '' @ app_bin @ newline @ Style_RESET_ALL)]
                          @ post, result))"
    by (intro exI [of _ app_bin]) simp
qed

lemma env_no_application_port0:
  "find_new_serial_port env_no_application (py_set (comports env_no_application 0)) =
     Some (''/dev/ttyACM0'', [Print waiting, Sleep (1 / 2), Sleep (1 / 2)])"
  by (simp add: find_new_serial_port_def poll_ports_unfold new_ports_at_def env_example_def
      env_no_application_def py_set_def set_minus_def set_pop_def)

lemma env_no_application_dir:
  "bins_dir_of C5_flasher env_no_application = ''/opt/flasher/bins''"
  by (simp add: bins_dir_of_def env_example_def env_no_application_def join_def)

lemma env_no_application_isdir:
  "C5_flasher = C5_flasher \<longrightarrow> isdir env_no_application (bins_dir_of C5_flasher env_no_application)"
  by (simp add: env_no_application_dir) (simp add: env_example_def env_no_application_def)

lemma env_no_application_firmware_bins:
  "firmware_bins env_no_application ''/opt/flasher/bins'' = []"
  by (simp add: firmware_bins_def glob_bins_def plain_dir_example bootloader_of_eq partitions_of_eq ota_data_of_eq
      env_no_application_def env_example_def join_def ishidden_def fnmatch_bin_def)

lemma env_two_candidates_facts:
  "C5_flasher = C5_flasher \<longrightarrow>
     isdir env_two_candidates (bins_dir_of C5_flasher env_two_candidates)"
  "find_new_serial_port env_two_candidates (py_set (comports env_two_candidates 0)) =
     Some (''/dev/ttyACM0'', [Print waiting, Sleep (1 / 2), Sleep (1 / 2)])"
  "''/opt/flasher/bins'' = bins_dir_of C5_flasher env_two_candidates"
  "firmware_bins env_two_candidates ''/opt/flasher/bins'' =
     [''/opt/flasher/bins/factory_test.bin'', ''/opt/flasher/bins/app_v3.bin'']"
  "getsize env_two_candidates ''/opt/flasher/bins/factory_test.bin'' = 1024"
  "getsize env_two_candidates ''/opt/flasher/bins/app_v3.bin'' = 512000"
  by (simp_all add: find_new_serial_port_def poll_ports_unfold new_ports_at_def env_example_def
      env_two_candidates_def py_set_def set_minus_def set_pop_def bins_dir_of_def join_def
      firmware_bins_def glob_bins_def plain_dir_example bootloader_of_eq partitions_of_eq
      ota_data_of_eq ishidden_def fnmatch_bin_def)

theorem C2_application_image_witness:
  "firmware_bins env_two_candidates ''/opt/flasher/bins'' =
     [''/opt/flasher/bins/factory_test.bin'', ''/opt/flasher/bins/app_v3.bin'']
   \<and> getsize env_two_candidates ''/opt/flasher/bins/factory_test.bin'' = 1024
   \<and> getsize env_two_candidates ''/opt/flasher/bins/app_v3.bin'' = 512000
   \<and> py_max (getsize env_two_candidates) (firmware_bins env_two_candidates ''/opt/flasher/bins'') =
       Inr ''/opt/flasher/bins/app_v3.bin''
   \<and> (\<exists>pre post result. main C5_flasher env_two_candidates =
         Some (pre @ [Print (''App (main):   '' @ ''/opt/flasher/bins/app_v3.bin'' @ newline
                               @ Style_RESET_ALL)] @ post, result))
   \<and> firmware_bins env_no_application ''/opt/flasher/bins'' = []
   \<and> main C5_flasher env_no_application =
       Some (startup_events C5_flasher env_no_application
               @ [Print waiting, Sleep (1 / 2), Sleep (1 / 2)]
               @ [Print (detected ''/dev/ttyACM0''), Print (no_application C5_flasher)],
             Raise (SystemExit 1))"
proof -
  note yes = C2_application_image [OF env_two_candidates_facts(1-3)]
  note no = C2_application_image [OF env_no_application_isdir env_no_application_port0
      env_no_application_dir [symmetric]]
  have app: "py_max (getsize env_two_candidates)
               (firmware_bins env_two_candidates ''/opt/flasher/bins'') =
             Inr ''/opt/flasher/bins/app_v3.bin''"
    by (simp add: env_two_candidates_facts(4-6) py_max_def)
  from yes app have "\<exists>pre post result. main C5_flasher env_two_candidates =
         Some (pre @ [Print (''App (main):   '' @ ''/opt/flasher/bins/app_v3.bin'' @ newline
                               @ Style_RESET_ALL)] @ post, result)"
    by (simp add: env_two_candidates_facts(4))
  moreover from no have "main C5_flasher env_no_application =
       Some (startup_events C5_flasher env_no_application
               @ [Print waiting, Sleep (1 / 2), Sleep (1 / 2)]
               @ [Print (detected ''/dev/ttyACM0''), Print (no_application C5_flasher)],
             Raise (SystemExit 1))"
    by (simp add: env_no_application_firmware_bins)
  ultimately show ?thesis
    using app env_two_candidates_facts(4-6) env_no_application_firmware_bins by blast
qed

section \<open>Confirmation and the call of esptool\<close>

lemma esptool_calls_flash_tail:
  "esptool_calls
     (case r of Returns \<Rightarrow> [Print flashing_complete]
      | Raises (Exception msg) \<Rightarrow> [Print (flashing_failed msg)]
      | Raises (SystemExit n) \<Rightarrow> []) = []"
  by (simp split: call_result.split exc.split)

lemma main_flash:
  assumes dir: "sc = C5_flasher \<longrightarrow> isdir e (bins_dir_of sc e)"
    and port: "find_new_serial_port e (py_set (comports e 0)) = Some (serial_port, waited)"
    and d: "d = bins_dir_of sc e"
    and app: "py_max (getsize e) (firmware_bins e d) = Inr app_bin"
    and b: "bootloader_of e d = Some bootloader"
    and pt: "partitions_of e d = Some partitions"
    and yes: "lower (strip (input_line e)) = ''y''"
    and args: "args = esptool_args sc serial_port bootloader partitions (ota_data_of e d) app_bin"
  shows "main sc e =
     Some ((startup_events sc e @ waited @ [Print (detected serial_port)]
              @ summary (Some bootloader) (Some partitions) (ota_data_of e d) app_bin
              @ [Input prompt, Print flashing])
           @ [Esptool_main args]
           @ (case esptool_main e args of
                Returns \<Rightarrow> [Print flashing_complete]
              | Raises (Exception msg) \<Rightarrow> [Print (flashing_failed msg)]
              | Raises (SystemExit n) \<Rightarrow> []),
           case esptool_main e args of
             Returns \<Rightarrow> Return
           | Raises (Exception msg) \<Rightarrow> Return
           | Raises (SystemExit n) \<Rightarrow> Raise (SystemExit n))"
  unfolding main_eq [OF dir port] d [symmetric] main_from_port_flash [OF app b pt yes args]
  by simp

lemma main_decline:
  assumes dir: "sc = C5_flasher \<longrightarrow> isdir e (bins_dir_of sc e)"
    and port: "find_new_serial_port e (py_set (comports e 0)) = Some (serial_port, waited)"
    and d: "d = bins_dir_of sc e"
    and app: "py_max (getsize e) (firmware_bins e d) = Inr app_bin"
    and b: "bootloader_of e d = Some bootloader"
    and pt: "partitions_of e d = Some partitions"
    and no: "lower (strip (input_line e)) \<noteq> ''y''"
  shows "main sc e =
     Some ((startup_events sc e @ waited @ [Print (detected serial_port)]
              @ summary (Some bootloader) (Some partitions) (ota_data_of e d) app_bin)
           @ [Input prompt, Print ''Aborting.''],
           Raise (SystemExit 0))"
proof -
  from b pt have "bootloader_of e d \<noteq> None" "partitions_of e d \<noteq> None" by simp_all
  from main_from_port_decline [OF app this no] show ?thesis
    unfolding main_eq [OF dir port] d [symmetric] by (simp add: b pt)
qed

text \<open>
  C1: In a run that gets to flashing, \<^verbatim>\<open>esptool.main\<close> is called once, and its argument
  list is: the chip \<^verbatim>\<open>esp32c5\<close>, the detected port, the baud rate 921600, the resets
  \<^verbatim>\<open>default_reset\<close> and \<^verbatim>\<open>hard_reset\<close>; in \<^verbatim>\<open>_c5_flasher.py\<close> only, the flash mode,
  frequency and size; \<^verbatim>\<open>write_flash -z\<close>; then the bootloader at \<^verbatim>\<open>0x2000\<close>
  (\<^verbatim>\<open>c5_flasher.py\<close>) or \<^verbatim>\<open>0x0\<close> (\<^verbatim>\<open>_c5_flasher.py\<close>), the partition table at
  \<^verbatim>\<open>0x8000\<close>, the OTA data at \<^verbatim>\<open>0xd000\<close> exactly when it was found, and the
  application at \<^verbatim>\<open>0x10000\<close>.
\<close>

theorem C1_esptool_arguments:
  assumes dir: "sc = C5_flasher \<longrightarrow> isdir e (bins_dir_of sc e)"
    and port: "find_new_serial_port e (py_set (comports e 0)) = Some (serial_port, waited)"
    and d: "d = bins_dir_of sc e"
    and app: "py_max (getsize e) (firmware_bins e d) = Inr app_bin"
    and b: "bootloader_of e d = Some bootloader"
    and pt: "partitions_of e d = Some partitions"
    and yes: "lower (strip (input_line e)) = ''y''"
  shows "\<exists>evs result. main sc e = Some (evs, result) \<and>
     esptool_calls evs =
       [[''--chip'', ''esp32c5'', ''--port'', serial_port, ''--baud'', ''921600'',
         ''--before'', ''default_reset'', ''--after'', ''hard_reset'']
        @ (case sc of
             C5_flasher \<Rightarrow> []
           | Underscore_c5_flasher \<Rightarrow>
               [''--flash_mode'', ''qio'', ''--flash_freq'', ''80m'', ''--flash_size'', ''4MB''])
        @ [''write_flash'', ''-z'']
        @ [case sc of C5_flasher \<Rightarrow> ''0x2000'' | Underscore_c5_flasher \<Rightarrow> ''0x0'', bootloader]
        @ [''0x8000'', partitions]
        @ (case ota_data_of e d of None \<Rightarrow> [] | Some ota \<Rightarrow> [''0xd000'', ota])
        @ [''0x10000'', app_bin]]"
proof -
  define args where
    "args = esptool_args sc serial_port bootloader partitions (ota_data_of e d) app_bin"
  note run = main_flash [OF dir port d app b pt yes args_def]
  have "esptool_calls
          ((startup_events sc e @ waited @ [Print (detected serial_port)]
              @ summary (Some bootloader) (Some partitions) (ota_data_of e d) app_bin
              @ [Input prompt, Print flashing])
           @ [Esptool_main args]
           @ (case esptool_main e args of
                Returns \<Rightarrow> [Print flashing_complete]
              | Raises (Exception msg) \<Rightarrow> [Print (flashing_failed msg)]
              | Raises (SystemExit n) \<Rightarrow> [])) = [args]"
    by (simp add: esptool_calls_append esptool_calls_startup esptool_calls_summary
        esptool_calls_waited [OF port] esptool_calls_flash_tail)
  with run show ?thesis
    unfolding args_def esptool_args_eq [OF b pt] by blast
qed

lemma env_example_bootloader:
  "bootloader_of env_example ''/opt/flasher/bins'' = Some ''/opt/flasher/bins/bootloader.bin''"
  by (simp add: bootloader_of_eq plain_dir_example env_example_listdir join_def)

lemma env_example_partitions:
  "partitions_of env_example ''/opt/flasher/bins'' = Some ''/opt/flasher/bins/partitions.bin''"
  by (simp add: partitions_of_eq plain_dir_example env_example_listdir join_def)

lemma env_example_ota: "ota_data_of env_example ''/opt/flasher/bins'' = None"
  by (simp add: ota_data_of_eq plain_dir_example env_example_listdir)

lemma env_example_app':
  "py_max (getsize env_example) (firmware_bins env_example ''/opt/flasher/bins'') =
     Inr ''/opt/flasher/bins/app_v3.bin''"
  using env_example_app by (simp add: env_example_dir)

lemma env_example_confirm: "lower (strip (input_line env_example)) = ''y''"
  by (simp add: env_example_def strip_def isspace_def lower_def lower_char_def)

lemma env_example_underscore_facts:
  "Underscore_c5_flasher = C5_flasher \<longrightarrow>
     isdir env_example (bins_dir_of Underscore_c5_flasher env_example)"
  "find_new_serial_port env_example (py_set (comports env_example 0)) =
     Some (''/dev/ttyACM0'', [Print waiting, Sleep (1 / 2), Sleep (1 / 2)])"
  "''/opt/flasher'' = bins_dir_of Underscore_c5_flasher env_example"
  "py_max (getsize env_example) (firmware_bins env_example ''/opt/flasher'') =
     Inr ''/opt/flasher/app_v3.bin''"
  "bootloader_of env_example ''/opt/flasher'' = Some ''/opt/flasher/bootloader.bin''"
  "partitions_of env_example ''/opt/flasher'' = Some ''/opt/flasher/partitions.bin''"
  "lower (strip (input_line env_example)) = ''y''"
  "ota_data_of env_example ''/opt/flasher'' = None"
  by (simp_all add: find_new_serial_port_def poll_ports_unfold new_ports_at_def env_example_def
      py_set_def set_minus_def set_pop_def bins_dir_of_def join_def
      firmware_bins_def glob_bins_def plain_dir_example bootloader_of_eq partitions_of_eq ota_data_of_eq
      ishidden_def fnmatch_bin_def py_max_def strip_def isspace_def lower_def lower_char_def)

theorem C1_esptool_arguments_witness:
  "(\<exists>evs result. main C5_flasher env_example = Some (evs, result) \<and>
     esptool_calls evs =
       [[''--chip'', ''esp32c5'', ''--port'', ''/dev/ttyACM0'', ''--baud'', ''921600'',
         ''--before'', ''default_reset'', ''--after'', ''hard_reset'',
         ''write_flash'', ''-z'',
         ''0x2000'', ''/opt/flasher/bins/bootloader.bin'',
         ''0x8000'', ''/opt/flasher/bins/partitions.bin'',
         ''0x10000'', ''/opt/flasher/bins/app_v3.bin'']])
   \<and> (\<exists>evs result. main Underscore_c5_flasher env_example = Some (evs, result) \<and>
     esptool_calls evs =
       [[''--chip'', ''esp32c5'', ''--port'', ''/dev/ttyACM0'', ''--baud'', ''921600'',
         ''--before'', ''default_reset'', ''--after'', ''hard_reset'',
         ''--flash_mode'', ''qio'', ''--flash_freq'', ''80m'', ''--flash_size'', ''4MB'',
         ''write_flash'', ''-z'',
         ''0x0'', ''/opt/flasher/bootloader.bin'',
         ''0x8000'', ''/opt/flasher/partitions.bin'',
         ''0x10000'', ''/opt/flasher/app_v3.bin'']])"
  using C1_esptool_arguments [OF env_example_isdir env_example_port0 env_example_dir [symmetric]
      env_example_app' env_example_bootloader env_example_partitions env_example_confirm]
    C1_esptool_arguments [OF env_example_underscore_facts(1-7)]
  by (simp add: env_example_ota env_example_underscore_facts(8))

text \<open>
  C5: In a run that gets to the confirmation prompt, \<^verbatim>\<open>esptool.main\<close> is called exactly
  when the operator's answer, stripped of whitespace and in lower case, is \<^verbatim>\<open>y\<close>, that
  is when the stripped answer is \<^verbatim>\<open>y\<close> or \<^verbatim>\<open>Y\<close>. Otherwise the run prints
  \<^verbatim>\<open>Aborting.\<close> after the prompt and ends with exit status 0 without calling
  \<^verbatim>\<open>esptool.main\<close>. The answers \<^verbatim>\<open>"y"\<close>, \<^verbatim>\<open>"Y"\<close> and \<^verbatim>\<open>" y "\<close> proceed; \<^verbatim>\<open>"n"\<close>,
  \<^verbatim>\<open>""\<close> and \<^verbatim>\<open>"yes"\<close> decline.
\<close>

theorem C5_confirmation:
  assumes dir: "sc = C5_flasher \<longrightarrow> isdir e (bins_dir_of sc e)"
    and port: "find_new_serial_port e (py_set (comports e 0)) = Some (serial_port, waited)"
    and d: "d = bins_dir_of sc e"
    and app: "py_max (getsize e) (firmware_bins e d) = Inr app_bin"
    and b: "bootloader_of e d = Some bootloader"
    and pt: "partitions_of e d = Some partitions"
  shows "(\<exists>evs result. main sc e = Some (evs, result)
      \<and> (esptool_calls evs \<noteq> [] \<longleftrightarrow> lower (strip (input_line e)) = ''y'')
      \<and> (lower (strip (input_line e)) \<noteq> ''y'' \<longrightarrow>
           result = Raise (SystemExit 0) \<and> exit_status result = 0 \<and> esptool_calls evs = []
           \<and> (\<exists>pre. evs = pre @ [Input prompt, Print ''Aborting.''])))
    \<and> (lower (strip (input_line e)) = ''y'' \<longleftrightarrow>
         strip (input_line e) = ''y'' \<or> strip (input_line e) = ''Y'')
    \<and> lower (strip ''y'') = ''y'' \<and> lower (strip ''Y'') = ''y'' \<and> lower (strip '' y '') = ''y''
    \<and> lower (strip ''n'') \<noteq> ''y'' \<and> lower (strip []) \<noteq> ''y'' \<and> lower (strip ''yes'') \<noteq> ''y''"
proof -
  have run: "\<exists>evs result. main sc e = Some (evs, result)
      \<and> (esptool_calls evs \<noteq> [] \<longleftrightarrow> lower (strip (input_line e)) = ''y'')
      \<and> (lower (strip (input_line e)) \<noteq> ''y'' \<longrightarrow>
           result = Raise (SystemExit 0) \<and> exit_status result = 0 \<and> esptool_calls evs = []
           \<and> (\<exists>pre. evs = pre @ [Input prompt, Print ''Aborting.'']))"
  proof (cases "lower (strip (input_line e)) = ''y''")
    case True
    define args where
      "args = esptool_args sc serial_port bootloader partitions (ota_data_of e d) app_bin"
    note run = main_flash [OF dir port d app b pt True args_def]
    have "esptool_calls
          ((startup_events sc e @ waited @ [Print (detected serial_port)]
              @ summary (Some bootloader) (Some partitions) (ota_data_of e d) app_bin
              @ [Input prompt, Print flashing])
           @ [Esptool_main args]
           @ (case esptool_main e args of
                Returns \<Rightarrow> [Print flashing_complete]
              | Raises (Exception msg) \<Rightarrow> [Print (flashing_failed msg)]
              | Raises (SystemExit n) \<Rightarrow> [])) \<noteq> []"
      by (simp add: esptool_calls_append esptool_calls_startup esptool_calls_summary
          esptool_calls_waited [OF port])
    with run True show ?thesis by blast
  next
    case False
    note run = main_decline [OF dir port d app b pt False]
    have "esptool_calls
           ((startup_events sc e @ waited @ [Print (detected serial_port)]
              @ summary (Some bootloader) (Some partitions) (ota_data_of e d) app_bin)
            @ [Input prompt, Print ''Aborting.'']) = []"
      by (simp add: esptool_calls_append esptool_calls_startup esptool_calls_summary
          esptool_calls_waited [OF port])
    with run False show ?thesis by (intro exI conjI impI) (assumption | simp | blast)+
  qed
  have examples: "lower (strip ''y'') = ''y''" "lower (strip ''Y'') = ''y''"
    "lower (strip '' y '') = ''y''" "lower (strip ''n'') \<noteq> ''y''"
    "lower (strip []) \<noteq> ''y''" "lower (strip ''yes'') \<noteq> ''y''"
    by (simp_all add: strip_def isspace_def lower_def lower_char_def char_of_eq_iff)
  from run examples lower_y [of "strip (input_line e)"] show ?thesis by blast
qed

lemma env_decline_facts:
  "C5_flasher = C5_flasher \<longrightarrow> isdir env_decline (bins_dir_of C5_flasher env_decline)"
  "find_new_serial_port env_decline (py_set (comports env_decline 0)) =
     Some (''/dev/ttyACM0'', [Print waiting, Sleep (1 / 2), Sleep (1 / 2)])"
  "''/opt/flasher/bins'' = bins_dir_of C5_flasher env_decline"
  "py_max (getsize env_decline) (firmware_bins env_decline ''/opt/flasher/bins'') =
     Inr ''/opt/flasher/bins/app_v3.bin''"
  "bootloader_of env_decline ''/opt/flasher/bins'' = Some ''/opt/flasher/bins/bootloader.bin''"
  "partitions_of env_decline ''/opt/flasher/bins'' = Some ''/opt/flasher/bins/partitions.bin''"
  "lower (strip (input_line env_decline)) \<noteq> ''y''"
  by (simp_all add: find_new_serial_port_def poll_ports_unfold new_ports_at_def env_example_def
      env_decline_def py_set_def set_minus_def set_pop_def bins_dir_of_def join_def
      firmware_bins_def glob_bins_def plain_dir_example bootloader_of_eq partitions_of_eq ota_data_of_eq
      ishidden_def fnmatch_bin_def py_max_def strip_def isspace_def lower_def lower_char_def)

theorem C5_confirmation_witness:
  "(\<exists>evs result. main C5_flasher env_example = Some (evs, result) \<and> esptool_calls evs \<noteq> [])
   \<and> (\<exists>pre. main C5_flasher env_decline =
         Some (pre @ [Input prompt, Print ''Aborting.''], Raise (SystemExit 0)))"
proof -
  from C5_confirmation [OF env_example_isdir env_example_port0 env_example_dir [symmetric]
      env_example_app' env_example_bootloader env_example_partitions] env_example_confirm
  have "\<exists>evs result. main C5_flasher env_example = Some (evs, result) \<and> esptool_calls evs \<noteq> []"
    by blast
  moreover
  from C5_confirmation [OF env_decline_facts(1-6)] env_decline_facts(7)
  have "\<exists>pre. main C5_flasher env_decline =
         Some (pre @ [Input prompt, Print ''Aborting.''], Raise (SystemExit 0))"
    by blast
  ultimately show ?thesis by blast
qed

section \<open>Missing images\<close>

lemma or_str_bootloader:
  "or_str (bootloader_of e d) x = (case bootloader_of e d of None \<Rightarrow> x | Some f \<Rightarrow> f)"
  using truthy_bootloader_of [of e d]
  by (cases "bootloader_of e d") (simp_all add: or_str_def)

lemma or_str_partitions:
  "or_str (partitions_of e d) x = (case partitions_of e d of None \<Rightarrow> x | Some f \<Rightarrow> f)"
  using truthy_partitions_of [of e d]
  by (cases "partitions_of e d") (simp_all add: or_str_def)

lemma or_str_ota_data:
  "or_str (ota_data_of e d) x = (case ota_data_of e d of None \<Rightarrow> x | Some f \<Rightarrow> f)"
  using truthy_ota_data_of [of e d]
  by (cases "ota_data_of e d") (simp_all add: or_str_def)

text \<open>
  C4 (as amended): In a run that finds no bootloader or no partition table, the process
  ends with exit status 1 and \<^verbatim>\<open>esptool.main\<close> is not called. When there is a candidate
  for the application image, the run prints the four lines of the summary, with the path
  or \<^verbatim>\<open>NOT FOUND\<close> for the bootloader and for the partition table, and then the
  missing-image message. When there is no candidate, the run ends before the summary
  with the no-application message.
\<close>

theorem C4_missing_required_image:
  assumes dir: "sc = C5_flasher \<longrightarrow> isdir e (bins_dir_of sc e)"
    and port: "find_new_serial_port e (py_set (comports e 0)) = Some (serial_port, waited)"
    and d: "d = bins_dir_of sc e"
    and missing: "bootloader_of e d = None \<or> partitions_of e d = None"
  shows "(\<exists>evs. main sc e = Some (evs, Raise (SystemExit 1)) \<and> esptool_calls evs = [])
    \<and> exit_status (Raise (SystemExit 1)) = 1
    \<and> (\<forall>app_bin. py_max (getsize e) (firmware_bins e d) = Inr app_bin \<longrightarrow>
         main sc e =
           Some (startup_events sc e @ waited @
             [Print (detected serial_port),
              Print (Fore_CYAN @ newline @ ''Bootloader:   ''
                       @ (case bootloader_of e d of None \<Rightarrow> ''NOT FOUND'' | Some f \<Rightarrow> f)),
              Print (''Partitions:   ''
                       @ (case partitions_of e d of None \<Rightarrow> ''NOT FOUND'' | Some f \<Rightarrow> f)),
              Print (''OTA Data:     ''
                       @ (case ota_data_of e d of None \<Rightarrow> ''NOT FOUND'' | Some f \<Rightarrow> f)),
              Print (''App (main):   '' @ app_bin @ newline @ Style_RESET_ALL),
              Print missing_required],
             Raise (SystemExit 1)))
    \<and> (firmware_bins e d = [] \<longrightarrow>
         main sc e =
           Some (startup_events sc e @ waited @
                   [Print (detected serial_port), Print (no_application sc)],
                 Raise (SystemExit 1)))"
proof -
  note roles = or_str_bootloader or_str_partitions or_str_ota_data
  have with_app: "main sc e =
           Some (startup_events sc e @ waited @
             [Print (detected serial_port),
              Print (Fore_CYAN @ newline @ ''Bootloader:   ''
                       @ (case bootloader_of e d of None \<Rightarrow> ''NOT FOUND'' | Some f \<Rightarrow> f)),
              Print (''Partitions:   ''
                       @ (case partitions_of e d of None \<Rightarrow> ''NOT FOUND'' | Some f \<Rightarrow> f)),
              Print (''OTA Data:     ''
                       @ (case ota_data_of e d of None \<Rightarrow> ''NOT FOUND'' | Some f \<Rightarrow> f)),
              Print (''App (main):   '' @ app_bin @ newline @ Style_RESET_ALL),
              Print missing_required],
             Raise (SystemExit 1))"
    if app: "py_max (getsize e) (firmware_bins e d) = Inr app_bin" for app_bin
    unfolding main_eq [OF dir port] d [symmetric] main_from_port_missing [OF app missing]
    by (simp add: summary_def roles)
  have without_app: "main sc e =
           Some (startup_events sc e @ waited @
                   [Print (detected serial_port), Print (no_application sc)],
                 Raise (SystemExit 1))"
    if none: "firmware_bins e d = []"
    unfolding main_eq [OF dir port] d [symmetric] main_from_port_no_app [OF none]
    by simp
  have "\<exists>evs. main sc e = Some (evs, Raise (SystemExit 1)) \<and> esptool_calls evs = []"
  proof (cases "firmware_bins e d = []")
    case True
    have "esptool_calls (startup_events sc e @ waited @
                   [Print (detected serial_port), Print (no_application sc)]) = []"
      by (simp add: esptool_calls_append esptool_calls_startup esptool_calls_waited [OF port])
    with without_app [OF True] show ?thesis by blast
  next
    case False
    then obtain app_bin where app: "py_max (getsize e) (firmware_bins e d) = Inr app_bin"
      using py_max_Inr_iff [of "getsize e" "firmware_bins e d"] by blast
    have "esptool_calls (startup_events sc e @ waited @
             [Print (detected serial_port),
              Print (Fore_CYAN @ newline @ ''Bootloader:   ''
                       @ (case bootloader_of e d of None \<Rightarrow> ''NOT FOUND'' | Some f \<Rightarrow> f)),
              Print (''Partitions:   ''
                       @ (case partitions_of e d of None \<Rightarrow> ''NOT FOUND'' | Some f \<Rightarrow> f)),
              Print (''OTA Data:     ''
                       @ (case ota_data_of e d of None \<Rightarrow> ''NOT FOUND'' | Some f \<Rightarrow> f)),
              Print (''App (main):   '' @ app_bin @ newline @ Style_RESET_ALL),
              Print missing_required]) = []"
      by (simp add: esptool_calls_append esptool_calls_startup esptool_calls_waited [OF port])
    with with_app [OF app] show ?thesis by blast
  qed
  with with_app without_app show ?thesis by simp
qed

lemma env_no_bootloader_facts:
  "C5_flasher = C5_flasher \<longrightarrow> isdir env_no_bootloader (bins_dir_of C5_flasher env_no_bootloader)"
  "find_new_serial_port env_no_bootloader (py_set (comports env_no_bootloader 0)) =
     Some (''/dev/ttyACM0'', [Print waiting, Sleep (1 / 2), Sleep (1 / 2)])"
  "''/opt/flasher/bins'' = bins_dir_of C5_flasher env_no_bootloader"
  "py_max (getsize env_no_bootloader) (firmware_bins env_no_bootloader ''/opt/flasher/bins'') =
     Inr ''/opt/flasher/bins/app_v3.bin''"
  "bootloader_of env_no_bootloader ''/opt/flasher/bins'' = None"
  "partitions_of env_no_bootloader ''/opt/flasher/bins'' = Some ''/opt/flasher/bins/partitions.bin''"
  "ota_data_of env_no_bootloader ''/opt/flasher/bins'' = None"
  by (simp_all add: find_new_serial_port_def poll_ports_unfold new_ports_at_def env_example_def
      env_no_bootloader_def py_set_def set_minus_def set_pop_def bins_dir_of_def join_def
      firmware_bins_def glob_bins_def plain_dir_example bootloader_of_eq partitions_of_eq ota_data_of_eq
      ishidden_def fnmatch_bin_def py_max_def)

theorem C4_missing_required_image_witness:
  "main C5_flasher env_no_bootloader =
     Some (startup_events C5_flasher env_no_bootloader @
             [Print waiting, Sleep (1 / 2), Sleep (1 / 2),
              Print (detected ''/dev/ttyACM0''),
              Print (Fore_CYAN @ newline @ ''Bootloader:   NOT FOUND''),
              Print ''Partitions:   /opt/flasher/bins/partitions.bin'',
              Print ''OTA Data:     NOT FOUND'',
              Print (''App (main):   /opt/flasher/bins/app_v3.bin'' @ newline @ Style_RESET_ALL),
              Print missing_required],
           Raise (SystemExit 1))"
  using C4_missing_required_image [OF env_no_bootloader_facts(1-3) disjI1,
      OF env_no_bootloader_facts(5)] env_no_bootloader_facts(4)
  by (simp add: env_no_bootloader_facts(5-7))

lemma missing_required_not_startup: "Print missing_required \<notin> set (startup_events sc e)"
  by (cases sc)
    (simp_all add: startup_events_def splash_def missing_required_def Fore_MAGENTA_def Fore_RED_def)

theorem C4_counterexample:
  "bootloader_of env_no_application (bins_dir_of C5_flasher env_no_application) = None
   \<and> main C5_flasher env_no_application =
       Some (startup_events C5_flasher env_no_application @
               [Print waiting, Sleep (1 / 2), Sleep (1 / 2),
                Print (detected ''/dev/ttyACM0''),
                Print (no_application C5_flasher)],
             Raise (SystemExit 1))
   \<and> Print missing_required \<notin>
       set (startup_events C5_flasher env_no_application @
               [Print waiting, Sleep (1 / 2), Sleep (1 / 2),
                Print (detected ''/dev/ttyACM0''),
                Print (no_application C5_flasher)])"
proof -
  have "bootloader_of env_no_application (bins_dir_of C5_flasher env_no_application) = None"
    by (simp add: env_no_application_dir bootloader_of_eq plain_dir_example)
      (simp add: env_no_application_def env_example_def)
  moreover have "main C5_flasher env_no_application =
       Some (startup_events C5_flasher env_no_application @
               [Print waiting, Sleep (1 / 2), Sleep (1 / 2),
                Print (detected ''/dev/ttyACM0''),
                Print (no_application C5_flasher)],
             Raise (SystemExit 1))"
    unfolding main_eq [OF env_no_application_isdir env_no_application_port0]
      env_no_application_dir
    by (simp add: main_from_port_no_app [OF env_no_application_firmware_bins])
  moreover have "Print missing_required \<notin>
       set (startup_events C5_flasher env_no_application @
               [Print waiting, Sleep (1 / 2), Sleep (1 / 2),
                Print (detected ''/dev/ttyACM0''),
                Print (no_application C5_flasher)])"
    by (simp add: missing_required_not_startup)
      (simp add: missing_required_def waiting_def detected_def no_application_def
        Fore_RED_def Fore_YELLOW_def Fore_GREEN_def)
  ultimately show ?thesis by blast
qed

section \<open>Exceptions of esptool\<close>

lemma complete_not_startup: "Print flashing_complete \<notin> set (startup_events sc e)"
  by (cases sc)
    (simp_all add: startup_events_def splash_def flashing_complete_def Fore_MAGENTA_def
      Fore_GREEN_def)

lemma complete_not_waited:
  assumes "find_new_serial_port e ex = Some (p, waited)"
  shows "Print flashing_complete \<notin> set waited"
proof -
  from find_new_serial_port_SomeD [OF assms] obtain n where
    "waited = Print waiting # replicate n (Sleep (1 / 2))" by blast
  then show ?thesis
    by (auto simp: flashing_complete_def waiting_def Fore_GREEN_def Fore_YELLOW_def)
qed

lemma complete_not_summary: "Print flashing_complete \<notin> set (summary b p ota app)"
  by (simp add: summary_def flashing_complete_def Fore_GREEN_def Fore_CYAN_def)

lemma complete_not_detected: "flashing_complete \<noteq> detected p"
  by (simp add: flashing_complete_def detected_def Fore_GREEN_def)

lemma complete_not_flashing: "flashing_complete \<noteq> flashing"
  by (simp add: flashing_complete_def flashing_def Fore_GREEN_def Fore_YELLOW_def)

lemma complete_not_failed: "flashing_complete \<noteq> flashing_failed msg"
  by (simp add: flashing_complete_def flashing_failed_def Fore_GREEN_def Fore_RED_def)

text \<open>
  C6 (as amended): In a run that gets to flashing, \<^verbatim>\<open>esptool.main\<close> is called once.
  When it raises an exception that is an instance of \<^verbatim>\<open>Exception\<close>, the run prints
  \<^verbatim>\<open>Flashing failed:\<close> with the exception's message and \<^verbatim>\<open>main\<close> returns, so the
  exit status is 0; when it returns, the run prints \<^verbatim>\<open>Flashing complete!\<close> and
  \<^verbatim>\<open>main\<close> returns. Whatever \<^verbatim>\<open>esptool.main\<close> does, \<^verbatim>\<open>Flashing complete!\<close> is printed
  exactly when it returned.
\<close>

theorem C6_flashing_exceptions:
  assumes dir: "sc = C5_flasher \<longrightarrow> isdir e (bins_dir_of sc e)"
    and port: "find_new_serial_port e (py_set (comports e 0)) = Some (serial_port, waited)"
    and d: "d = bins_dir_of sc e"
    and app: "py_max (getsize e) (firmware_bins e d) = Inr app_bin"
    and b: "bootloader_of e d = Some bootloader"
    and pt: "partitions_of e d = Some partitions"
    and yes: "lower (strip (input_line e)) = ''y''"
    and args: "args = esptool_args sc serial_port bootloader partitions (ota_data_of e d) app_bin"
  shows "\<exists>pre. esptool_calls pre = [] \<and> Print flashing_complete \<notin> set pre
      \<and> (\<forall>msg. esptool_main e args = Raises (Exception msg) \<longrightarrow>
            main sc e =
              Some (pre @ [Esptool_main args, Print (flashing_failed msg)], Return))
      \<and> (esptool_main e args = Returns \<longrightarrow>
            main sc e = Some (pre @ [Esptool_main args, Print flashing_complete], Return))
      \<and> exit_status Return = 0
      \<and> (\<exists>evs result. main sc e = Some (evs, result) \<and> esptool_calls evs = [args]
            \<and> (Print flashing_complete \<in> set evs \<longleftrightarrow> esptool_main e args = Returns))"
proof -
  define pre where
    "pre = startup_events sc e @ waited @ [Print (detected serial_port)]
             @ summary (Some bootloader) (Some partitions) (ota_data_of e d) app_bin
             @ [Input prompt, Print flashing]"
  define tail where
    "tail = (case esptool_main e args of
               Returns \<Rightarrow> [Print flashing_complete]
             | Raises (Exception msg) \<Rightarrow> [Print (flashing_failed msg)]
             | Raises (SystemExit n) \<Rightarrow> [])"
  define result where
    "result = (case esptool_main e args of
                 Returns \<Rightarrow> Return
               | Raises (Exception msg) \<Rightarrow> Return
               | Raises (SystemExit n) \<Rightarrow> Raise (SystemExit n))"
  have run: "main sc e = Some (pre @ [Esptool_main args] @ tail, result)"
    unfolding pre_def tail_def result_def
    by (rule main_flash [OF dir port d app b pt yes args])
  have calls: "esptool_calls pre = []"
    unfolding pre_def
    by (simp add: esptool_calls_append esptool_calls_startup esptool_calls_summary
        esptool_calls_waited [OF port])
  have quiet: "Print flashing_complete \<notin> set pre"
    unfolding pre_def
    by (simp add: complete_not_startup complete_not_waited [OF port] complete_not_summary
        complete_not_detected complete_not_flashing)
  have failed: "main sc e = Some (pre @ [Esptool_main args, Print (flashing_failed msg)], Return)"
    if "esptool_main e args = Raises (Exception msg)" for msg
    using run that by (simp add: tail_def result_def)
  have returned: "main sc e = Some (pre @ [Esptool_main args, Print flashing_complete], Return)"
    if "esptool_main e args = Returns"
    using run that by (simp add: tail_def result_def)
  have once: "esptool_calls (pre @ [Esptool_main args] @ tail) = [args]"
    unfolding tail_def
    by (simp add: esptool_calls_append calls esptool_calls_flash_tail)
  have iff: "Print flashing_complete \<in> set (pre @ [Esptool_main args] @ tail)
               \<longleftrightarrow> esptool_main e args = Returns"
    using quiet unfolding tail_def
    by (simp add: complete_not_failed split: call_result.split exc.split)
  from run once iff have
    "\<exists>evs result. main sc e = Some (evs, result) \<and> esptool_calls evs = [args]
        \<and> (Print flashing_complete \<in> set evs \<longleftrightarrow> esptool_main e args = Returns)"
    by blast
  with calls quiet failed returned show ?thesis
    by (intro exI [of _ pre]) simp
qed

lemma env_flash_fails_facts:
  "C5_flasher = C5_flasher \<longrightarrow> isdir env_flash_fails (bins_dir_of C5_flasher env_flash_fails)"
  "find_new_serial_port env_flash_fails (py_set (comports env_flash_fails 0)) =
     Some (''/dev/ttyACM0'', [Print waiting, Sleep (1 / 2), Sleep (1 / 2)])"
  "''/opt/flasher/bins'' = bins_dir_of C5_flasher env_flash_fails"
  "py_max (getsize env_flash_fails) (firmware_bins env_flash_fails ''/opt/flasher/bins'') =
     Inr ''/opt/flasher/bins/app_v3.bin''"
  "bootloader_of env_flash_fails ''/opt/flasher/bins'' = Some ''/opt/flasher/bins/bootloader.bin''"
  "partitions_of env_flash_fails ''/opt/flasher/bins'' = Some ''/opt/flasher/bins/partitions.bin''"
  "lower (strip (input_line env_flash_fails)) = ''y''"
  "ota_data_of env_flash_fails ''/opt/flasher/bins'' = None"
  "esptool_main env_flash_fails args = Raises (Exception ''Failed to connect'')"
  by (simp_all add: find_new_serial_port_def poll_ports_unfold new_ports_at_def env_example_def
      env_flash_fails_def py_set_def set_minus_def set_pop_def bins_dir_of_def join_def
      firmware_bins_def glob_bins_def plain_dir_example bootloader_of_eq partitions_of_eq ota_data_of_eq
      ishidden_def fnmatch_bin_def py_max_def strip_def isspace_def lower_def lower_char_def)

theorem C6_flashing_exceptions_witness:
  "\<exists>pre. esptool_calls pre = [] \<and>
     main C5_flasher env_flash_fails =
       Some (pre @ [Esptool_main
                      (esptool_args C5_flasher ''/dev/ttyACM0'' ''/opt/flasher/bins/bootloader.bin''
                         ''/opt/flasher/bins/partitions.bin'' None ''/opt/flasher/bins/app_v3.bin''),
                    Print (flashing_failed ''Failed to connect'')], Return)"
  using C6_flashing_exceptions [OF env_flash_fails_facts(1-7) refl] env_flash_fails_facts(9)
  unfolding env_flash_fails_facts(8)
  by blast

lemma env_flash_exits_facts:
  "C5_flasher = C5_flasher \<longrightarrow> isdir env_flash_exits (bins_dir_of C5_flasher env_flash_exits)"
  "find_new_serial_port env_flash_exits (py_set (comports env_flash_exits 0)) =
     Some (''/dev/ttyACM0'', [Print waiting, Sleep (1 / 2), Sleep (1 / 2)])"
  "''/opt/flasher/bins'' = bins_dir_of C5_flasher env_flash_exits"
  "py_max (getsize env_flash_exits) (firmware_bins env_flash_exits ''/opt/flasher/bins'') =
     Inr ''/opt/flasher/bins/app_v3.bin''"
  "bootloader_of env_flash_exits ''/opt/flasher/bins'' = Some ''/opt/flasher/bins/bootloader.bin''"
  "partitions_of env_flash_exits ''/opt/flasher/bins'' = Some ''/opt/flasher/bins/partitions.bin''"
  "lower (strip (input_line env_flash_exits)) = ''y''"
  "ota_data_of env_flash_exits ''/opt/flasher/bins'' = None"
  "esptool_main env_flash_exits args = Raises (SystemExit 2)"
  by (simp_all add: find_new_serial_port_def poll_ports_unfold new_ports_at_def env_example_def
      env_flash_exits_def py_set_def set_minus_def set_pop_def bins_dir_of_def join_def
      firmware_bins_def glob_bins_def plain_dir_example bootloader_of_eq partitions_of_eq ota_data_of_eq
      ishidden_def fnmatch_bin_def py_max_def strip_def isspace_def lower_def lower_char_def)

theorem C6_counterexample:
  "main C5_flasher env_flash_exits =
     Some (startup_events C5_flasher env_flash_exits @
             [Print waiting, Sleep (1 / 2), Sleep (1 / 2),
              Print (detected ''/dev/ttyACM0'')]
             @ summary (Some ''/opt/flasher/bins/bootloader.bin'')
                 (Some ''/opt/flasher/bins/partitions.bin'') None ''/opt/flasher/bins/app_v3.bin''
             @ [Input prompt, Print flashing,
                Esptool_main
                  (esptool_args C5_flasher ''/dev/ttyACM0'' ''/opt/flasher/bins/bootloader.bin''
                     ''/opt/flasher/bins/partitions.bin'' None ''/opt/flasher/bins/app_v3.bin'')],
           Raise (SystemExit 2))
   \<and> esptool_main env_flash_exits
        (esptool_args C5_flasher ''/dev/ttyACM0'' ''/opt/flasher/bins/bootloader.bin''
           ''/opt/flasher/bins/partitions.bin'' None ''/opt/flasher/bins/app_v3.bin'')
       = Raises (SystemExit 2)
   \<and> exit_status (Raise (SystemExit 2)) = 2"
  using main_flash [OF env_flash_exits_facts(1-7) refl]
  unfolding env_flash_exits_facts(8)
  by (simp add: env_flash_exits_facts(9))

section \<open>Resolution and the directory listing\<close>

lemma py_max_unique:
  assumes "a \<in> set xs" and "\<forall>f\<in>set xs. f \<noteq> a \<longrightarrow> key f < key a"
  shows "py_max key xs = Inr a"
proof -
  from assms(1) have "xs \<noteq> []" by auto
  then obtain r where r: "py_max key xs = Inr r"
    using py_max_Inr_iff [of key xs] by blast
  have "r \<in> set xs" using r by (rule py_max_Inr_mem)
  moreover have "key a \<le> key r" using r assms(1) by (rule py_max_Inr_ge)
  ultimately have "r = a" using assms(2) by fastforce
  with r show ?thesis by simp
qed

lemma roles_same_names:
  assumes "plain_dir d" and "set (listdir e1) = set (listdir e2)"
  shows "bootloader_of e1 d = bootloader_of e2 d"
    and "partitions_of e1 d = partitions_of e2 d"
    and "ota_data_of e1 d = ota_data_of e2 d"
  by (simp_all add: bootloader_of_eq partitions_of_eq ota_data_of_eq assms)

lemma candidates_same_snapshot:
  assumes "plain_dir d" and "set (listdir e1) = set (listdir e2)" and "isfile e1 = isfile e2"
  shows "set (firmware_bins e1 d) = set (firmware_bins e2 d)"
  unfolding set_firmware_bins set_glob_bins [OF assms(1)] roles_same_names [OF assms(1,2)]
    assms(2,3) ..

lemma candidates_same_listing:
  assumes "plain_dir d" and "listdir e1 = listdir e2" and "isfile e1 = isfile e2"
  shows "firmware_bins e1 d = firmware_bins e2 d"
proof -
  from assms(2) have "set (listdir e1) = set (listdir e2)" by simp
  note roles = roles_same_names [OF assms(1) this]
  show ?thesis unfolding firmware_bins_listing [OF assms(1)] roles assms(2,3) ..
qed

text \<open>
  C8 (as amended): Two listings of a directory whose path has no wildcard character,
  with the same set of names, where the same paths are regular files and have the same
  sizes, give the same bootloader, partition
  table and OTA data, the same set of candidates for the application image, and an
  application image of the same size. They give the same application image when they
  list the names in the same order, and when one candidate is strictly larger than every
  other.
\<close>

theorem C8_resolution_of_snapshot:
  assumes plain: "plain_dir d"
    and names: "set (listdir e1) = set (listdir e2)"
    and files: "isfile e1 = isfile e2"
    and sizes: "getsize e1 = getsize e2"
  shows "bootloader_of e1 d = bootloader_of e2 d
    \<and> partitions_of e1 d = partitions_of e2 d
    \<and> ota_data_of e1 d = ota_data_of e2 d
    \<and> set (firmware_bins e1 d) = set (firmware_bins e2 d)
    \<and> (\<forall>a1 a2. py_max (getsize e1) (firmware_bins e1 d) = Inr a1 \<longrightarrow>
          py_max (getsize e2) (firmware_bins e2 d) = Inr a2 \<longrightarrow>
          getsize e1 a1 = getsize e2 a2)
    \<and> (listdir e1 = listdir e2 \<longrightarrow>
          py_max (getsize e1) (firmware_bins e1 d) = py_max (getsize e2) (firmware_bins e2 d))
    \<and> (\<forall>a. a \<in> set (firmware_bins e1 d) \<longrightarrow>
          (\<forall>f\<in>set (firmware_bins e1 d). f \<noteq> a \<longrightarrow> getsize e1 f < getsize e1 a) \<longrightarrow>
          py_max (getsize e1) (firmware_bins e1 d) = Inr a \<and>
          py_max (getsize e2) (firmware_bins e2 d) = Inr a)"
proof -
  note roles = roles_same_names [OF plain names]
  note cands = candidates_same_snapshot [OF plain names files]
  have size: "getsize e1 a1 = getsize e2 a2"
    if a1: "py_max (getsize e1) (firmware_bins e1 d) = Inr a1"
      and a2: "py_max (getsize e2) (firmware_bins e2 d) = Inr a2" for a1 a2
  proof -
    have "a1 \<in> set (firmware_bins e2 d)" using py_max_Inr_mem [OF a1] cands by simp
    from py_max_Inr_ge [OF a2 this] have "getsize e2 a1 \<le> getsize e2 a2" .
    moreover
    have "a2 \<in> set (firmware_bins e1 d)" using py_max_Inr_mem [OF a2] cands by simp
    from py_max_Inr_ge [OF a1 this] have "getsize e1 a2 \<le> getsize e1 a1" .
    ultimately show ?thesis by (simp add: sizes)
  qed
  have order: "py_max (getsize e1) (firmware_bins e1 d) = py_max (getsize e2) (firmware_bins e2 d)"
    if "listdir e1 = listdir e2"
    unfolding candidates_same_listing [OF plain that files] sizes ..
  have unique: "py_max (getsize e1) (firmware_bins e1 d) = Inr a \<and>
          py_max (getsize e2) (firmware_bins e2 d) = Inr a"
    if a: "a \<in> set (firmware_bins e1 d)"
      and larger: "\<forall>f\<in>set (firmware_bins e1 d). f \<noteq> a \<longrightarrow> getsize e1 f < getsize e1 a" for a
  proof
    show "py_max (getsize e1) (firmware_bins e1 d) = Inr a"
      using a larger by (rule py_max_unique)
    show "py_max (getsize e2) (firmware_bins e2 d) = Inr a"
      using a larger unfolding cands sizes by (rule py_max_unique)
  qed
  from roles cands size order unique show ?thesis by blast
qed

lemma env_tie_snapshot:
  "set (listdir env_tie_ab) = set (listdir env_tie_ba)"
  "isfile env_tie_ab = isfile env_tie_ba"
  "getsize env_tie_ab = getsize env_tie_ba"
  by (auto simp: env_tie_ab_def env_tie_ba_def)

lemma env_tie_app:
  "py_max (getsize env_tie_ab) (firmware_bins env_tie_ab ''/opt/flasher/bins'') =
     Inr ''/opt/flasher/bins/a.bin''"
  "py_max (getsize env_tie_ba) (firmware_bins env_tie_ba ''/opt/flasher/bins'') =
     Inr ''/opt/flasher/bins/b.bin''"
  by (simp_all add: env_tie_ab_firmware_bins env_tie_ba_firmware_bins py_max_def)
    (simp_all add: env_tie_ab_def env_tie_ba_def)

theorem C8_resolution_of_snapshot_witness:
  "bootloader_of env_tie_ab ''/opt/flasher/bins'' = bootloader_of env_tie_ba ''/opt/flasher/bins''
   \<and> partitions_of env_tie_ab ''/opt/flasher/bins'' = partitions_of env_tie_ba ''/opt/flasher/bins''
   \<and> ota_data_of env_tie_ab ''/opt/flasher/bins'' = ota_data_of env_tie_ba ''/opt/flasher/bins''
   \<and> set (firmware_bins env_tie_ab ''/opt/flasher/bins'') =
       set (firmware_bins env_tie_ba ''/opt/flasher/bins'')
   \<and> getsize env_tie_ab ''/opt/flasher/bins/a.bin'' = getsize env_tie_ba ''/opt/flasher/bins/b.bin''"
  using C8_resolution_of_snapshot [OF plain_dir_example(1) env_tie_snapshot] env_tie_app
  by blast

lemma env_tie_ab_facts:
  "C5_flasher = C5_flasher \<longrightarrow> isdir env_tie_ab (bins_dir_of C5_flasher env_tie_ab)"
  "find_new_serial_port env_tie_ab (py_set (comports env_tie_ab 0)) =
     Some (''/dev/ttyACM0'', [Print waiting, Sleep (1 / 2), Sleep (1 / 2)])"
  "''/opt/flasher/bins'' = bins_dir_of C5_flasher env_tie_ab"
  "py_max (getsize env_tie_ab) (firmware_bins env_tie_ab ''/opt/flasher/bins'') =
     Inr ''/opt/flasher/bins/a.bin''"
  "bootloader_of env_tie_ab ''/opt/flasher/bins'' = Some ''/opt/flasher/bins/bootloader.bin''"
  "partitions_of env_tie_ab ''/opt/flasher/bins'' = Some ''/opt/flasher/bins/partitions.bin''"
  "lower (strip (input_line env_tie_ab)) = ''y''"
  "ota_data_of env_tie_ab ''/opt/flasher/bins'' = None"
  "esptool_main env_tie_ab args = Returns"
  by (simp_all add: find_new_serial_port_def poll_ports_unfold new_ports_at_def env_example_def
      env_tie_ab_def py_set_def set_minus_def set_pop_def bins_dir_of_def join_def
      firmware_bins_def glob_bins_def plain_dir_example bootloader_of_eq partitions_of_eq ota_data_of_eq
      ishidden_def fnmatch_bin_def py_max_def strip_def isspace_def lower_def lower_char_def)

lemma env_tie_ba_facts:
  "C5_flasher = C5_flasher \<longrightarrow> isdir env_tie_ba (bins_dir_of C5_flasher env_tie_ba)"
  "find_new_serial_port env_tie_ba (py_set (comports env_tie_ba 0)) =
     Some (''/dev/ttyACM0'', [Print waiting, Sleep (1 / 2), Sleep (1 / 2)])"
  "''/opt/flasher/bins'' = bins_dir_of C5_flasher env_tie_ba"
  "py_max (getsize env_tie_ba) (firmware_bins env_tie_ba ''/opt/flasher/bins'') =
     Inr ''/opt/flasher/bins/b.bin''"
  "bootloader_of env_tie_ba ''/opt/flasher/bins'' = Some ''/opt/flasher/bins/bootloader.bin''"
  "partitions_of env_tie_ba ''/opt/flasher/bins'' = Some ''/opt/flasher/bins/partitions.bin''"
  "lower (strip (input_line env_tie_ba)) = ''y''"
  "ota_data_of env_tie_ba ''/opt/flasher/bins'' = None"
  "esptool_main env_tie_ba args = Returns"
  by (simp_all add: find_new_serial_port_def poll_ports_unfold new_ports_at_def env_example_def
      env_tie_ba_def py_set_def set_minus_def set_pop_def bins_dir_of_def join_def
      firmware_bins_def glob_bins_def plain_dir_example bootloader_of_eq partitions_of_eq ota_data_of_eq
      ishidden_def fnmatch_bin_def py_max_def strip_def isspace_def lower_def lower_char_def)

theorem C8_counterexample:
  "set (listdir env_tie_ab) = set (listdir env_tie_ba)
   \<and> isfile env_tie_ab = isfile env_tie_ba
   \<and> getsize env_tie_ab = getsize env_tie_ba
   \<and> py_max (getsize env_tie_ab) (firmware_bins env_tie_ab ''/opt/flasher/bins'') =
       Inr ''/opt/flasher/bins/a.bin''
   \<and> py_max (getsize env_tie_ba) (firmware_bins env_tie_ba ''/opt/flasher/bins'') =
       Inr ''/opt/flasher/bins/b.bin''
   \<and> map_option (esptool_calls \<circ> fst) (main C5_flasher env_tie_ab) =
       Some [[''--chip'', ''esp32c5'', ''--port'', ''/dev/ttyACM0'', ''--baud'', ''921600'',
              ''--before'', ''default_reset'', ''--after'', ''hard_reset'',
              ''write_flash'', ''-z'',
              ''0x2000'', ''/opt/flasher/bins/bootloader.bin'',
              ''0x8000'', ''/opt/flasher/bins/partitions.bin'',
              ''0x10000'', ''/opt/flasher/bins/a.bin'']]
   \<and> map_option (esptool_calls \<circ> fst) (main C5_flasher env_tie_ba) =
       Some [[''--chip'', ''esp32c5'', ''--port'', ''/dev/ttyACM0'', ''--baud'', ''921600'',
              ''--before'', ''default_reset'', ''--after'', ''hard_reset'',
              ''write_flash'', ''-z'',
              ''0x2000'', ''/opt/flasher/bins/bootloader.bin'',
              ''0x8000'', ''/opt/flasher/bins/partitions.bin'',
              ''0x10000'', ''/opt/flasher/bins/b.bin'']]"
proof -
  have ab: "map_option (esptool_calls \<circ> fst) (main C5_flasher env_tie_ab) =
       Some [[''--chip'', ''esp32c5'', ''--port'', ''/dev/ttyACM0'', ''--baud'', ''921600'',
              ''--before'', ''default_reset'', ''--after'', ''hard_reset'',
              ''write_flash'', ''-z'',
              ''0x2000'', ''/opt/flasher/bins/bootloader.bin'',
              ''0x8000'', ''/opt/flasher/bins/partitions.bin'',
              ''0x10000'', ''/opt/flasher/bins/a.bin'']]"
    unfolding main_flash [OF env_tie_ab_facts(1-7) refl] env_tie_ab_facts(8,9)
    by (simp add: esptool_calls_append esptool_calls_startup esptool_calls_summary
        esptool_args_def truthy_def)
  have ba: "map_option (esptool_calls \<circ> fst) (main C5_flasher env_tie_ba) =
       Some [[''--chip'', ''esp32c5'', ''--port'', ''/dev/ttyACM0'', ''--baud'', ''921600'',
              ''--before'', ''default_reset'', ''--after'', ''hard_reset'',
              ''write_flash'', ''-z'',
              ''0x2000'', ''/opt/flasher/bins/bootloader.bin'',
              ''0x8000'', ''/opt/flasher/bins/partitions.bin'',
              ''0x10000'', ''/opt/flasher/bins/b.bin'']]"
    unfolding main_flash [OF env_tie_ba_facts(1-7) refl] env_tie_ba_facts(8,9)
    by (simp add: esptool_calls_append esptool_calls_startup esptool_calls_summary
        esptool_args_def truthy_def)
  from env_tie_snapshot env_tie_app ab ba show ?thesis by simp
qed

end
